theory Spec2Isabelle
  imports Complex_Main "HOL-Library.Word"
begin

section \<open>The delegate's signing pipeline (src/index.js)\<close>

text \<open>
  The cloud function \<^verbatim>\<open>vote\<close> of src/index.js fetches the pending proposals, asks an
  oracle for a decision on each, signs the approved ones and stores one row per decision.
  The embedding below follows the file function by function. A thrown exception is the
  left summand of a result; the database, the oracle, the chain RPC, the signing account
  and the library eip-7582-utils are collaborators outside the repository and are
  parameters of the model (record \<open>env\<close>); everything the function does to them is
  written to an explicit state (record \<open>world\<close>).
\<close>

subsection \<open>Exceptions\<close>

datatype error =
    IntegerOutOfRangeError int
  | SizeExceedsPaddingSizeError nat nat
  | ReferenceError string
  | TypeError string
  | Error string

text \<open>\<^verbatim>\<open>error.message\<close>, as the handlers of \<^verbatim>\<open>vote\<close> read it. The messages of the two
  errors of viem also carry the offending sizes and the library's version; they are
  abbreviated here.\<close>

fun message :: "error \<Rightarrow> string" where
  "message (IntegerOutOfRangeError v) = ''Number is not in safe integer range''"
| "message (SizeExceedsPaddingSizeError n m) = ''Hex size exceeds padding size''"
| "message (ReferenceError s) = s"
| "message (TypeError s) = s"
| "message (Error s) = s"

definition bindE :: "error + 'a \<Rightarrow> ('a \<Rightarrow> error + 'b) \<Rightarrow> error + 'b" where
  "bindE r f = (case r of Inl e \<Rightarrow> Inl e | Inr x \<Rightarrow> f x)"

subsection \<open>JavaScript strings and truthiness\<close>

text \<open>\<^verbatim>\<open>toLowerCase\<close> on ASCII strings, which addresses, hashes and chain names are.\<close>

definition lowerChar :: "char \<Rightarrow> char" where
  "lowerChar c =
     (case map_of (zip ''ABCDEFGHIJKLMNOPQRSTUVWXYZ'' ''abcdefghijklmnopqrstuvwxyz'') c of
        Some l \<Rightarrow> l
      | None \<Rightarrow> c)"

definition toLowerCase :: "string \<Rightarrow> string" where
  "toLowerCase s = map lowerChar s"

text \<open>A property that may be \<^verbatim>\<open>undefined\<close> or \<^verbatim>\<open>null\<close> is an option; a string is truthy
  when it is present and not empty, a number when it is present and not zero.\<close>

definition truthyStr :: "string option \<Rightarrow> bool" where
  "truthyStr s = (case s of None \<Rightarrow> False | Some x \<Rightarrow> x \<noteq> [])"

definition truthyNum :: "int option \<Rightarrow> bool" where
  "truthyNum n = (case n of None \<Rightarrow> False | Some x \<Rightarrow> x \<noteq> 0)"

text \<open>\<^verbatim>\<open>x || "0x"\<close> and \<^verbatim>\<open>x || 0\<close>.\<close>

definition orHex :: "string option \<Rightarrow> string" where
  "orHex s = (if truthyStr s then the s else ''0x'')"

definition orZero :: "int option \<Rightarrow> int" where
  "orZero n = (if truthyNum n then the n else 0)"

subsection \<open>The hex helpers of viem: toHex, pad, concat\<close>

text \<open>
  \<^verbatim>\<open>toHex\<close>, \<^verbatim>\<open>pad\<close> and \<^verbatim>\<open>concat\<close> are imported from the library viem. They are modelled
  as the library defines them on the arguments index.js passes (hex strings and
  integers): \<^verbatim>\<open>toHex(v)\<close> is \<^verbatim>\<open>numberToHex\<close>, which throws IntegerOutOfRangeError on a
  negative value and otherwise returns \<^verbatim>\<open>"0x" + v.toString(16)\<close>; \<^verbatim>\<open>pad(hex, {size})\<close> is
  \<^verbatim>\<open>padHex\<close>, which removes the first \<^verbatim>\<open>"0x"\<close>, throws SizeExceedsPaddingSizeError when more
  than \<^verbatim>\<open>2 * size\<close> digits remain and otherwise left-pads with \<^verbatim>\<open>"0"\<close> to \<^verbatim>\<open>2 * size\<close> digits;
  \<^verbatim>\<open>concat\<close> on hex strings is \<^verbatim>\<open>concatHex\<close>, \<^verbatim>\<open>"0x"\<close> followed by every argument with its
  first \<^verbatim>\<open>"0x"\<close> removed.
\<close>

definition hexDigit :: "nat \<Rightarrow> char" where
  "hexDigit d = ''0123456789abcdef'' ! d"

fun toString16 :: "nat \<Rightarrow> string" where
  "toString16 n =
     (if n < 16 then [hexDigit n] else toString16 (n div 16) @ [hexDigit (n mod 16)])"

declare toString16.simps [simp del]

definition toHex :: "int \<Rightarrow> error + string" where
  "toHex v =
     (if v < 0 then Inl (IntegerOutOfRangeError v) else Inr (''0x'' @ toString16 (nat v)))"

text \<open>\<^verbatim>\<open>s.replace("0x", "")\<close>: the first occurrence, wherever it is.\<close>

fun replace0x :: "string \<Rightarrow> string" where
  "replace0x (a # b # s) =
     (if a = CHR ''0'' \<and> b = CHR ''x'' then s else a # replace0x (b # s))"
| "replace0x s = s"

definition pad :: "nat \<Rightarrow> string \<Rightarrow> error + string" where
  "pad sz hx =
     (let h = replace0x hx in
      if length h > sz * 2
      then Inl (SizeExceedsPaddingSizeError ((length h + 1) div 2) sz)
      else Inr (''0x'' @ replicate (sz * 2 - length h) CHR ''0'' @ h))"

definition concatHex :: "string list \<Rightarrow> string" where
  "concatHex vs = ''0x'' @ foldl (\<lambda>acc x. acc @ replace0x x) [] vs"

subsection \<open>The operation packer\<close>

record userOperation =
  sender :: string
  nonce :: int
  callData :: string
  verificationGasLimit :: int
  callGasLimit :: int
  preVerificationGas :: int
  maxFeePerGas :: int
  maxPriorityFeePerGas :: int
  signature :: string
  factory :: "string option"
  factoryData :: "string option"
  paymaster :: "string option"
  paymasterPostOpGasLimit :: "int option"
  paymasterVerificationGasLimit :: "int option"
  paymasterData :: "string option"

definition packInitCode :: "userOperation \<Rightarrow> string" where
  "packInitCode unpackedUserOperation =
     (if truthyStr (factory unpackedUserOperation)
      then concatHex [the (factory unpackedUserOperation),
                      orHex (factoryData unpackedUserOperation)]
      else ''0x'')"

definition packAccountGasLimits :: "userOperation \<Rightarrow> error + string" where
  "packAccountGasLimits unpackedUserOperation =
     bindE (bindE (toHex (verificationGasLimit unpackedUserOperation)) (pad 16)) (\<lambda>a.
     bindE (bindE (toHex (callGasLimit unpackedUserOperation)) (pad 16)) (\<lambda>b.
     Inr (concatHex [a, b])))"

definition packGasLimits :: "userOperation \<Rightarrow> error + string" where
  "packGasLimits unpackedUserOperation =
     bindE (bindE (toHex (maxPriorityFeePerGas unpackedUserOperation)) (pad 16)) (\<lambda>a.
     bindE (bindE (toHex (maxFeePerGas unpackedUserOperation)) (pad 16)) (\<lambda>b.
     Inr (concatHex [a, b])))"

definition packPaymasterAndData :: "userOperation \<Rightarrow> error + string" where
  "packPaymasterAndData unpackedUserOperation =
     (if truthyStr (paymaster unpackedUserOperation)
      then
        bindE (bindE (toHex (orZero (paymasterVerificationGasLimit unpackedUserOperation)))
                 (pad 16)) (\<lambda>a.
        bindE (bindE (toHex (orZero (paymasterPostOpGasLimit unpackedUserOperation)))
                 (pad 16)) (\<lambda>b.
        Inr (concatHex [the (paymaster unpackedUserOperation), a, b,
                        orHex (paymasterData unpackedUserOperation)])))
      else Inr ''0x'')"

subsection \<open>Bytes, for stating what the packed strings denote\<close>

text \<open>
  The byte sequence a hex string denotes (\<^verbatim>\<open>"0x"\<close>, then two digits per byte, either
  case), the big-endian bytes of a number at a fixed width, and the number a big-endian
  byte sequence denotes. These are not code of index.js: the packing theorems are
  stated with them.
\<close>

definition hexVal :: "char \<Rightarrow> nat option" where
  "hexVal c =
     (let n = (of_char c :: nat) in
      if 48 \<le> n \<and> n \<le> 57 then Some (n - 48)
      else if 97 \<le> n \<and> n \<le> 102 then Some (n - 87)
      else if 65 \<le> n \<and> n \<le> 70 then Some (n - 55)
      else None)"

fun digitsToBytes :: "string \<Rightarrow> 8 word list option" where
  "digitsToBytes [] = Some []"
| "digitsToBytes [c] = None"
| "digitsToBytes (c # d # s) =
     (case (hexVal c, hexVal d, digitsToBytes s) of
        (Some x, Some y, Some bs) \<Rightarrow> Some (word_of_nat (16 * x + y) # bs)
      | _ \<Rightarrow> None)"

definition hexToBytes :: "string \<Rightarrow> 8 word list option" where
  "hexToBytes s =
     (case s of
        a # b # r \<Rightarrow> if a = CHR ''0'' \<and> b = CHR ''x'' then digitsToBytes r else None
      | _ \<Rightarrow> None)"

definition bigEndian :: "nat \<Rightarrow> nat \<Rightarrow> 8 word list" where
  "bigEndian k n = map (\<lambda>i. word_of_nat (n div 256 ^ (k - 1 - i))) [0..<k]"

definition bigEndianValue :: "8 word list \<Rightarrow> nat" where
  "bigEndianValue bs = foldl (\<lambda>acc b. acc * 256 + unat b) 0 bs"

definition byteToHex :: "8 word \<Rightarrow> string" where
  "byteToHex b = [hexDigit (unat b div 16), hexDigit (unat b mod 16)]"

definition bytesToDigits :: "8 word list \<Rightarrow> string" where
  "bytesToDigits bs = concat (map byteToHex bs)"

text \<open>A missing gas limit counts as zero and missing data as no bytes.\<close>

definition limitOrZero :: "int option \<Rightarrow> int" where
  "limitOrZero n = (case n of None \<Rightarrow> 0 | Some v \<Rightarrow> v)"

definition dataBytes :: "string option \<Rightarrow> 8 word list option" where
  "dataBytes d = (case d of None \<Rightarrow> Some [] | Some s \<Rightarrow> hexToBytes s)"

text \<open>The last \<open>k\<close> hex digits of a number, most significant first.\<close>

fun hexFixed :: "nat \<Rightarrow> nat \<Rightarrow> string" where
  "hexFixed 0 n = []"
| "hexFixed (Suc k) n = hexFixed k (n div 16) @ [hexDigit (n mod 16)]"

subsection \<open>JSON values\<close>

text \<open>
  What \<^verbatim>\<open>JSON.parse\<close> returns. The parser itself is a built-in of the language and a
  parameter of the model (\<open>JSON_parse\<close> below, \<open>None\<close> when it throws SyntaxError); an
  object is the list of its own properties.
\<close>

datatype json =
    JNull
  | JBool bool
  | JNum rat
  | JStr string
  | JArr "json list"
  | JObj "(string \<times> json) list"

text \<open>The truthiness \<^verbatim>\<open>if (result)\<close> and \<^verbatim>\<open>Boolean(vote)\<close> test.\<close>

fun truthy :: "json \<Rightarrow> bool" where
  "truthy JNull = False"
| "truthy (JBool b) = b"
| "truthy (JNum x) = (x \<noteq> 0)"
| "truthy (JStr s) = (s \<noteq> [])"
| "truthy (JArr xs) = True"
| "truthy (JObj kvs) = True"

text \<open>\<^verbatim>\<open>Boolean(v)\<close> of a value that may be \<^verbatim>\<open>undefined\<close>.\<close>

definition Boolean :: "json option \<Rightarrow> bool" where
  "Boolean v = (case v of None \<Rightarrow> False | Some j \<Rightarrow> truthy j)"

text \<open>Reading a property in the destructuring \<^verbatim>\<open>const { vote, reason } = value\<close>: a
  property an object does not have is \<^verbatim>\<open>undefined\<close>, as is any property of that name on
  an array, a string, a number or a boolean; destructuring \<^verbatim>\<open>null\<close> throws.\<close>

fun getProperty :: "json \<Rightarrow> string \<Rightarrow> error + json option" where
  "getProperty JNull k = Inl (TypeError ''Cannot destructure property of null'')"
| "getProperty (JObj kvs) k = Inr (map_of kvs k)"
| "getProperty v k = Inr None"

subsection \<open>Records of the pipeline\<close>

text \<open>A row of the table \<^verbatim>\<open>proposals\<close>. The numeric columns are the integers
  \<^verbatim>\<open>BigInt(...)\<close> makes of them.\<close>

record proposal =
  p_sender :: string
  p_nonce :: int
  p_callData :: string
  p_verificationGasLimit :: int
  p_callGasLimit :: int
  p_preVerificationGas :: int
  p_maxFeePerGas :: int
  p_maxPriorityFeePerGas :: int
  p_factory :: "string option"
  p_factoryData :: "string option"
  p_paymaster :: "string option"
  p_paymasterPostOpGasLimit :: "int option"
  p_paymasterVerificationGasLimit :: "int option"
  p_paymasterData :: "string option"
  p_chain :: string
  p_content :: string
  p_userOpHash :: string

text \<open>The argument of \<^verbatim>\<open>addSignature\<close> and a row of the table \<^verbatim>\<open>signatures\<close>.\<close>

record sig =
  sig_signer :: string
  sig_account :: string
  sig_hash :: string
  sig_signature :: string
  sig_reason :: "json option"

record row =
  row_signer :: string
  row_account :: "string option"
  row_hash :: string
  row_signature :: string
  row_content :: "json option"

record domain =
  name :: string
  version :: string
  chainId :: int
  verifyingContract :: string

text \<open>The \<^verbatim>\<open>ValidateUserOp\<close> message handed to the signer.\<close>

record typedMessage =
  m_sender :: string
  m_nonce :: int
  m_initCode :: string
  m_callData :: string
  m_accountGasLimits :: string
  m_preVerificationGas :: int
  m_gasFees :: string
  m_paymasterAndData :: string
  m_validUntil :: int
  m_validAfter :: int

text \<open>An entry of \<^verbatim>\<open>results\<close>, the summary the HTTP response carries.\<close>

record result =
  res_hash :: string
  status :: string
  res_signature :: "string option"
  res_vote :: "json option"
  res_reason :: "json option"
  res_error :: "string option"

datatype response =
    Status200 nat "result list"
  | Status500 string

datatype chain = mainnet | arbitrum | base

fun chain_id :: "chain \<Rightarrow> int" where
  "chain_id mainnet = 1"
| "chain_id arbitrum = 42161"
| "chain_id base = 8453"

text \<open>The account \<^verbatim>\<open>toGcpAccount\<close> returns: its address and its \<^verbatim>\<open>signTypedData\<close>, called
  with the constant \<^verbatim>\<open>types\<close> and \<^verbatim>\<open>primaryType\<close> of the file.\<close>

record account =
  acct_address :: string
  signTypedData :: "domain \<Rightarrow> typedMessage \<Rightarrow> error + string"

subsection \<open>The collaborators and the state\<close>

text \<open>
  \<open>fetchText k prompt\<close> is the body of the response to the \<open>k\<close>-th request sent to the
  oracle, whose system message is \<open>prompt\<close>, or the error \<^verbatim>\<open>fetch\<close> throws;
  \<open>selectProposals k\<close> is the outcome of the \<open>k\<close>-th SELECT; \<open>insertRow t r\<close> is the
  error with which the database refuses to insert \<open>r\<close> into the table \<open>t\<close>, if it does
  (the table's constraints are not part of the repository); \<open>readContract\<close> is the
  \<^verbatim>\<open>eip712Domain\<close> view of the account contract on a chain; \<open>getKeyFromNonce\<close> and
  \<open>getValidatorKey\<close> are the two functions imported from eip-7582-utils.
\<close>

record env =
  fetchText :: "nat \<Rightarrow> string \<Rightarrow> error + string"
  JSON_parse :: "string \<Rightarrow> json option"
  selectProposals :: "nat \<Rightarrow> error + proposal list"
  insertRow :: "row list \<Rightarrow> row \<Rightarrow> error option"
  readContract :: "chain \<Rightarrow> string \<Rightarrow> error + (string \<times> string \<times> int \<times> string)"
  getKeyFromNonce :: "int \<Rightarrow> string"
  getValidatorKey :: "string \<Rightarrow> string"
  toGcpAccount :: "error + account"

text \<open>
  The state: the table \<^verbatim>\<open>signatures\<close>, the system messages sent to the oracle so far,
  the delays waited (milliseconds), the number of SELECTs issued, the contracts read and
  the signing requests made.
\<close>

record world =
  signatures :: "row list"
  requests :: "string list"
  sleeps :: "nat list"
  queries :: nat
  reads :: "(chain \<times> string) list"
  signings :: "(domain \<times> typedMessage) list"

subsection \<open>getRecentProposals\<close>

text \<open>The loop \<^verbatim>\<open>for (let i = 0; i < retries; i++)\<close>; falling out of it returns
  \<^verbatim>\<open>undefined\<close> (\<open>None\<close>).\<close>

function getRecentProposals_loop ::
  "env \<Rightarrow> nat \<Rightarrow> nat \<Rightarrow> world \<Rightarrow> (error + proposal list option) \<times> world" where
  "getRecentProposals_loop e retries i w =
     (if i < retries then
        (let w1 = w\<lparr>queries := queries w + 1\<rparr> in
         case selectProposals e (queries w) of
           Inr rows \<Rightarrow> (Inr (Some rows), w1)
         | Inl err \<Rightarrow>
             if i = retries - 1 then (Inl err, w1)
             else getRecentProposals_loop e retries (i + 1)
                    (w1\<lparr>sleeps := sleeps w1 @ [1000 * (i + 1)]\<rparr>))
      else (Inr None, w))"
  by pat_completeness auto
termination
  by (relation "measure (\<lambda>(e, retries, i, w). retries - i)") auto

declare getRecentProposals_loop.simps [simp del]

definition getRecentProposals ::
  "env \<Rightarrow> nat \<Rightarrow> world \<Rightarrow> (error + proposal list option) \<times> world" where
  "getRecentProposals e retries w = getRecentProposals_loop e retries 0 w"

subsection \<open>addSignature\<close>

text \<open>The array \<^verbatim>\<open>values\<close> of the INSERT.\<close>

definition sigValues :: "sig \<Rightarrow> row" where
  "sigValues s =
     \<lparr>row_signer = toLowerCase (sig_signer s),
      row_account =
        (if sig_account s \<noteq> [] then Some (toLowerCase (sig_account s)) else None),
      row_hash = toLowerCase (sig_hash s),
      row_signature = sig_signature s,
      row_content = sig_reason s\<rparr>"

definition addSignature :: "env \<Rightarrow> sig \<Rightarrow> world \<Rightarrow> (error + row) \<times> world" where
  "addSignature e s w =
     (let values = sigValues s in
      case insertRow e (signatures w) values of
        None \<Rightarrow> (Inr values, w\<lparr>signatures := signatures w @ [values]\<rparr>)
      | Some err \<Rightarrow> (Inl err, w))"

subsection \<open>getNaniVote\<close>

definition systemContent :: "string \<Rightarrow> string \<Rightarrow> string" where
  \<open>systemContent additionalInstruction content =
     ''You are NANI, an AI member of the DAO. You must carefully evaluate whether the following proposal is in the best interest of the DAO. Analyze the proposal and determine if it should be approved. Your response must be in JSON format with 'vote' being true or false and include a 'reason' explaining your decision. Format: {"vote":true/false,"reason":"explanation"}. ''
     @ additionalInstruction @ '' Here is the proposal to evaluate: '' @ content\<close>

definition secondInstruction :: string where
  "secondInstruction =
     ''You must respond with ONLY valid JSON, no other text or explanation.''"

definition finalInstruction :: string where
  \<open>finalInstruction =
     ''CRITICAL: Respond with ONLY a JSON object in the exact format {"vote": boolean, "reason": "string"} - no other text whatsoever.''\<close>

text \<open>\<^verbatim>\<open>makeRequest\<close>: one POST; a body that does not parse gives \<^verbatim>\<open>null\<close>.\<close>

definition makeRequest ::
  "env \<Rightarrow> proposal \<Rightarrow> string \<Rightarrow> world \<Rightarrow> (error + json) \<times> world" where
  "makeRequest e p additionalInstruction w =
     (let prompt = systemContent additionalInstruction (p_content p);
          w1 = w\<lparr>requests := requests w @ [prompt]\<rparr>
      in case fetchText e (length (requests w)) prompt of
           Inl err \<Rightarrow> (Inl err, w1)
         | Inr text \<Rightarrow>
             (case JSON_parse e text of
                Some v \<Rightarrow> (Inr v, w1)
              | None \<Rightarrow> (Inr JNull, w1)))"

definition getNaniVote :: "env \<Rightarrow> proposal \<Rightarrow> world \<Rightarrow> (error + json) \<times> world" where
  "getNaniVote e p w =
     (case makeRequest e p [] w of
        (Inl err, w1) \<Rightarrow> (Inl err, w1)
      | (Inr r1, w1) \<Rightarrow>
          if truthy r1 then (Inr r1, w1)
          else
            (case makeRequest e p secondInstruction w1 of
               (Inl err, w2) \<Rightarrow> (Inl err, w2)
             | (Inr r2, w2) \<Rightarrow>
                 if truthy r2 then (Inr r2, w2)
                 else
                   (case makeRequest e p finalInstruction w2 of
                      (Inl err, w3) \<Rightarrow> (Inl err, w3)
                    | (Inr r3, w3) \<Rightarrow>
                        if truthy r3 then (Inr r3, w3)
                        else (Inl (Error
                          ''Failed to get valid JSON response after 3 attempts''), w3))))"

subsection \<open>The signing domain\<close>

definition resolveChain :: "string \<Rightarrow> error + chain" where
  "resolveChain c =
     (let l = toLowerCase c in
      if l = ''eth'' then Inr mainnet
      else if l = ''arbitrum'' then Inr arbitrum
      else if l = ''base'' then Inr base
      else Inl (Error ''Unsupported chain ''))"

text \<open>\<^verbatim>\<open>Number(n)\<close> of a BigInt: the nearest double, ties to even (a \<^verbatim>\<open>uint256\<close> is within
  a double's range).\<close>

fun bitLength :: "nat \<Rightarrow> nat" where
  "bitLength n = (if n = 0 then 0 else Suc (bitLength (n div 2)))"

declare bitLength.simps [simp del]

definition Number :: "int \<Rightarrow> int" where
  "Number v =
     (let a = nat \<bar>v\<bar>; k = bitLength a - 53 in
      if k = 0 then v
      else
        (let q = a div 2 ^ k; r = a mod 2 ^ k; h = 2 ^ (k - 1);
             q' = (if h < r \<or> (r = h \<and> odd q) then q + 1 else q)
         in sgn v * int (q' * 2 ^ k)))"

definition getDomain :: "env \<Rightarrow> string \<Rightarrow> string \<Rightarrow> world \<Rightarrow> (error + domain) \<times> world" where
  "getDomain e sender' chain' w =
     (case resolveChain chain' of
        Inl err \<Rightarrow> (Inl err, w)
      | Inr c \<Rightarrow>
          (let w1 = w\<lparr>reads := reads w @ [(c, sender')]\<rparr> in
           case readContract e c sender' of
             Inl err \<Rightarrow> (Inl err, w1)
           | Inr (n, v, cid, vc) \<Rightarrow>
               (Inr \<lparr>name = n, version = v, chainId = Number cid, verifyingContract = vc\<rparr>,
                w1)))"

record validatorApp =
  app_id :: string
  address :: string
  title :: string
  icon :: string
  description :: string

definition validatorApps :: "validatorApp list" where
  "validatorApps =
     [\<lparr>app_id = ''remote-validator'',
       address = ''0x0000000000159aAFCA7067005E28665a28B5B4cf'',
       title = ''Scheduler'',
       icon = ''/apps/remote-validator.png'',
       description = ''Set specific days and times for your transactions to be processed''\<rparr>,
      \<lparr>app_id = ''recovery-validator'',
       address = ''0x000000000000a78fb292191473e51dd34700c43d'',
       title = ''Recovery'',
       icon = ''/apps/recovery-validator.png'',
       description = ''Set backup roles to recover your account in case of an emergency''\<rparr>,
      \<lparr>app_id = ''joint-validator'',
       address = ''0x000000000000D3D2b2980A7BC509018E4d88e947'',
       title = ''Joint Ownership'',
       icon = ''/apps/joint-validator.webp'',
       description = ''Add joint owners to your smart account with full concurrent rights''\<rparr>,
      \<lparr>app_id = ''payment-validator'',
       address = ''0x00000000000032CD4FAE890F90e61e6864e44aa7'',
       title = ''Payment Plans'',
       icon = ''/apps/payment-validator.webp'',
       description = ''Add payment plans and delegate token transfer permissions''\<rparr>,
      \<lparr>app_id = ''permit-validator'',
       address = ''0x000000000000ab6c9FF3ed50AC4BAF2a20890835'',
       title = ''Custom Permissions'',
       icon = ''/apps/permit-validator.webp'',
       description = ''Add arbitrary permissions within the Permit structure''\<rparr>]"

definition getValidator :: "string \<Rightarrow> error + validatorApp" where
  "getValidator i =
     (case find (\<lambda>app. app_id app = i) validatorApps of
        None \<Rightarrow> Inl (Error ''App not found'')
      | Some app \<Rightarrow> Inr app)"

subsection \<open>signProposal\<close>

text \<open>
  The only binding of the identifier \<^verbatim>\<open>publicClient\<close> in index.js is the \<^verbatim>\<open>const\<close> inside
  \<^verbatim>\<open>getDomain\<close>. In the body of \<^verbatim>\<open>signProposal\<close> the identifier is not in scope, and
  evaluating \<^verbatim>\<open>publicClient.chain.id\<close> there throws ReferenceError.
\<close>

definition publicClient :: "error + chain" where
  "publicClient = Inl (ReferenceError ''publicClient is not defined'')"

text \<open>The object literal of the override, its properties evaluated in order.\<close>

definition remoteValidatorDomain :: "error + domain" where
  "remoteValidatorDomain =
     bindE publicClient (\<lambda>client.
     bindE (getValidator ''remote-validator'') (\<lambda>app.
     Inr \<lparr>name = ''RemoteValidator'', version = ''1.0.0'', chainId = chain_id client,
          verifyingContract = address app\<rparr>))"

definition zeroKey :: string where
  "zeroKey = ''0x0000000000000000000000000000000000000000000000000000000000000000''"

definition overrideDomain :: "env \<Rightarrow> string \<Rightarrow> domain \<Rightarrow> error + domain" where
  "overrideDomain e key resolved =
     (if key \<noteq> zeroKey then
        bindE (getValidator ''remote-validator'') (\<lambda>app.
        if key = getValidatorKey e (address app) then remoteValidatorDomain else Inr resolved)
      else Inr resolved)"

definition toUserOperation :: "proposal \<Rightarrow> userOperation" where
  "toUserOperation p =
     \<lparr>sender = p_sender p,
      nonce = p_nonce p,
      callData = p_callData p,
      verificationGasLimit = p_verificationGasLimit p,
      callGasLimit = p_callGasLimit p,
      preVerificationGas = p_preVerificationGas p,
      maxFeePerGas = p_maxFeePerGas p,
      maxPriorityFeePerGas = p_maxPriorityFeePerGas p,
      signature = ''0x'',
      factory = p_factory p,
      factoryData = p_factoryData p,
      paymaster = p_paymaster p,
      paymasterPostOpGasLimit =
        (if truthyNum (p_paymasterPostOpGasLimit p) then p_paymasterPostOpGasLimit p
         else None),
      paymasterVerificationGasLimit =
        (if truthyNum (p_paymasterVerificationGasLimit p)
         then p_paymasterVerificationGasLimit p else None),
      paymasterData = p_paymasterData p\<rparr>"

definition signProposal ::
  "env \<Rightarrow> account \<Rightarrow> proposal \<Rightarrow> world \<Rightarrow> (error + string) \<times> world" where
  "signProposal e acct p w =
     (let userOperation = toUserOperation p in
      case getDomain e (sender userOperation) (p_chain p) w of
        (Inl err, w1) \<Rightarrow> (Inl err, w1)
      | (Inr resolved, w1) \<Rightarrow>
          (case
             bindE (packGasLimits userOperation) (\<lambda>gasFees.
             bindE (packAccountGasLimits userOperation) (\<lambda>accountGasLimits.
             bindE (packPaymasterAndData userOperation) (\<lambda>paymasterAndData.
             bindE (overrideDomain e (getKeyFromNonce e (nonce userOperation)) resolved)
               (\<lambda>used.
             Inr (used,
               \<lparr>m_sender = sender userOperation,
                m_nonce = nonce userOperation,
                m_initCode = packInitCode userOperation,
                m_callData = callData userOperation,
                m_accountGasLimits = accountGasLimits,
                m_preVerificationGas = preVerificationGas userOperation,
                m_gasFees = gasFees,
                m_paymasterAndData = paymasterAndData,
                m_validUntil = 0,
                m_validAfter = 0\<rparr>)))))
           of
             Inl err \<Rightarrow> (Inl err, w1)
           | Inr (used, msg) \<Rightarrow>
               (signTypedData acct used msg,
                w1\<lparr>signings := signings w1 @ [(used, msg)]\<rparr>)))"

subsection \<open>The handler vote\<close>

definition destructure :: "json \<Rightarrow> error + (json option \<times> json option)" where
  "destructure d =
     bindE (getProperty d ''vote'') (\<lambda>v.
     bindE (getProperty d ''reason'') (\<lambda>r. Inr (v, r)))"

text \<open>The body of the inner \<^verbatim>\<open>try\<close>.\<close>

definition processProposal ::
  "env \<Rightarrow> account \<Rightarrow> proposal \<Rightarrow> world \<Rightarrow> (error + result) \<times> world" where
  "processProposal e acct p w =
     (case getNaniVote e p w of
        (Inl err, w1) \<Rightarrow> (Inl err, w1)
      | (Inr d, w1) \<Rightarrow>
          (case destructure d of
             Inl err \<Rightarrow> (Inl err, w1)
           | Inr (vote, reason) \<Rightarrow>
               if Boolean vote = True then
                 (case signProposal e acct p w1 of
                    (Inl err, w2) \<Rightarrow> (Inl err, w2)
                  | (Inr sg, w2) \<Rightarrow>
                      (case addSignature e
                              \<lparr>sig_signer = acct_address acct, sig_account = p_sender p,
                               sig_hash = p_userOpHash p, sig_signature = sg,
                               sig_reason = reason\<rparr> w2 of
                         (Inl err, w3) \<Rightarrow> (Inl err, w3)
                       | (Inr stored, w3) \<Rightarrow>
                           (Inr \<lparr>res_hash = p_userOpHash p, status = ''success'',
                                res_signature = Some sg, res_vote = vote,
                                res_reason = reason, res_error = None\<rparr>, w3)))
               else
                 (case addSignature e
                         \<lparr>sig_signer = acct_address acct, sig_account = p_sender p,
                          sig_hash = p_userOpHash p, sig_signature = [],
                          sig_reason = reason\<rparr> w1 of
                    (Inl err, w2) \<Rightarrow> (Inl err, w2)
                  | (Inr stored, w2) \<Rightarrow>
                      (Inr \<lparr>res_hash = p_userOpHash p, status = ''rejected'',
                           res_signature = None, res_vote = vote,
                           res_reason = reason, res_error = None\<rparr>, w2))))"

text \<open>What the inner \<^verbatim>\<open>catch\<close> pushes.\<close>

definition errorResult :: "proposal \<Rightarrow> error \<Rightarrow> result" where
  "errorResult p err =
     \<lparr>res_hash = p_userOpHash p, status = ''error'', res_signature = None,
      res_vote = None, res_reason = None, res_error = Some (message err)\<rparr>"

text \<open>What a summary entry says was stored: nothing for an entry of status
  \<^verbatim>\<open>"error"\<close>, and otherwise the lower-cased hash with the signature, empty for a
  rejection. Not code of index.js: the theorem on the loop is stated with it.\<close>

definition recorded :: "result \<Rightarrow> (string \<times> string) list" where
  "recorded r =
     (if status r = ''error'' then []
      else [(toLowerCase (res_hash r),
             (case res_signature r of Some s \<Rightarrow> s | None \<Rightarrow> []))])"

text \<open>The loop \<^verbatim>\<open>for (const proposal of proposals)\<close>.\<close>

fun processProposals ::
  "env \<Rightarrow> account \<Rightarrow> proposal list \<Rightarrow> result list \<Rightarrow> world \<Rightarrow> result list \<times> world" where
  "processProposals e acct [] results w = (results, w)"
| "processProposals e acct (p # ps) results w =
     (case processProposal e acct p w of
        (Inr r, w1) \<Rightarrow> processProposals e acct ps (results @ [r]) w1
      | (Inl err, w1) \<Rightarrow> processProposals e acct ps (results @ [errorResult p err]) w1)"

definition vote :: "env \<Rightarrow> world \<Rightarrow> response \<times> world" where
  "vote e w =
     (case getRecentProposals e 3 w of
        (Inl err, w1) \<Rightarrow> (Status500 (message err), w1)
      | (Inr None, w1) \<Rightarrow>
          (Status500 (message (TypeError ''Cannot read properties of undefined'')), w1)
      | (Inr (Some proposals), w1) \<Rightarrow>
          (case toGcpAccount e of
             Inl err \<Rightarrow> (Status500 (message err), w1)
           | Inr acct \<Rightarrow>
               (case processProposals e acct proposals [] w1 of
                  (results, w2) \<Rightarrow> (Status200 (length proposals) results, w2))))"

subsection \<open>Concrete inputs\<close>

definition exampleOp :: userOperation where
  "exampleOp =
     \<lparr>sender = ''0x0000000000001d8a2e7bf6bc369525a2654aa298'', nonce = 7,
      callData = ''0xb61d27f6'', verificationGasLimit = 100000, callGasLimit = 65536,
      preVerificationGas = 21000, maxFeePerGas = 100, maxPriorityFeePerGas = 1,
      signature = ''0x'', factory = None, factoryData = None,
      paymaster = Some ''0x00000000000032CD4FAE890F90e61e6864e44aa7'',
      paymasterPostOpGasLimit = None, paymasterVerificationGasLimit = Some 255,
      paymasterData = Some ''0xbeef''\<rparr>"

definition exampleProposal :: proposal where
  "exampleProposal =
     \<lparr>p_sender = ''0x0000000000001d8a2e7bf6bc369525a2654aa298'', p_nonce = 7,
      p_callData = ''0xb61d27f6'', p_verificationGasLimit = 100000,
      p_callGasLimit = 65536, p_preVerificationGas = 21000, p_maxFeePerGas = 100,
      p_maxPriorityFeePerGas = 1, p_factory = None, p_factoryData = None,
      p_paymaster = None, p_paymasterPostOpGasLimit = None,
      p_paymasterVerificationGasLimit = None, p_paymasterData = None,
      p_chain = ''Base'', p_content = ''Pay 1 ETH to the grants multisig'',
      p_userOpHash = ''0xAB12''\<rparr>"

text \<open>\<^verbatim>\<open>JSON.parse\<close> on the response bodies the examples use: each body listed is mapped to
  the value \<^verbatim>\<open>JSON.parse\<close> returns for it, and the one other body the examples use,
  \<^verbatim>\<open>I approve this proposal.\<close>, is not JSON.\<close>

definition exampleParse :: "string \<Rightarrow> json option" where
  \<open>exampleParse s =
     (if s = ''null'' then Some JNull
      else if s = ''false'' then Some (JBool False)
      else if s = ''0'' then Some (JNum 0)
      else if s = ''{"vote":true,"reason":"ok"}''
        then Some (JObj [(''vote'', JBool True), (''reason'', JStr ''ok'')])
      else if s = ''{"vote":false,"reason":"no"}''
        then Some (JObj [(''vote'', JBool False), (''reason'', JStr ''no'')])
      else if s = ''{"vote":"false","reason":"no"}''
        then Some (JObj [(''vote'', JStr ''false''), (''reason'', JStr ''no'')])
      else if s = ''{"reason":"unsure"}''
        then Some (JObj [(''reason'', JStr ''unsure'')])
      else None)\<close>

text \<open>An oracle that answers the \<open>k\<close>-th request with the \<open>k\<close>-th body of a list.\<close>

definition replies :: "string list \<Rightarrow> nat \<Rightarrow> string \<Rightarrow> error + string" where
  "replies bodies k prompt =
     (if k < length bodies then Inr (bodies ! k) else Inl (Error ''fetch failed''))"

definition exampleAccount :: account where
  "exampleAccount =
     \<lparr>acct_address = ''0x466d3E0E6D661d6E7626e9dea93c460BD4e15B40'',
      signTypedData = (\<lambda>d m. Inr ''0x5157'')\<rparr>"

text \<open>Stand-ins for the two functions of eip-7582-utils in the examples: the key of a
  nonce is its top 24 bytes, the key of a validator its address left-padded to 24
  bytes.\<close>

definition exampleKeyFromNonce :: "int \<Rightarrow> string" where
  "exampleKeyFromNonce n =
     (case bindE (toHex (n div 2 ^ 64)) (pad 24) of Inr k \<Rightarrow> k | Inl err \<Rightarrow> ''0x'')"

definition exampleValidatorKey :: "string \<Rightarrow> string" where
  "exampleValidatorKey a =
     (case pad 24 (toLowerCase a) of Inr k \<Rightarrow> k | Inl err \<Rightarrow> ''0x'')"

text \<open>A database without constraints on the table \<^verbatim>\<open>signatures\<close>, an account contract
  that reports its own address, and an oracle that approves.\<close>

definition exampleEnv :: env where
  \<open>exampleEnv =
     \<lparr>fetchText = replies [''{"vote":true,"reason":"ok"}''],
      JSON_parse = exampleParse,
      selectProposals = (\<lambda>k. Inr [exampleProposal]),
      insertRow = (\<lambda>t r. None),
      readContract = (\<lambda>c a. Inr (''NANI'', ''1.1.1'', chain_id c, a)),
      getKeyFromNonce = exampleKeyFromNonce,
      getValidatorKey = exampleValidatorKey,
      toGcpAccount = Inr exampleAccount\<rparr>\<close>

definition exampleSig :: sig where
  "exampleSig =
     \<lparr>sig_signer = ''0x466d3E0E6D661d6E7626e9dea93c460BD4e15B40'',
      sig_account = ''0x0000000000001d8a2e7bf6bc369525a2654aa298'',
      sig_hash = ''0xAB12'', sig_signature = ''0x5157'',
      sig_reason = Some (JStr ''ok'')\<rparr>"

definition exampleRow :: row where
  "exampleRow =
     \<lparr>row_signer = ''0x466d3e0e6d661d6e7626e9dea93c460bd4e15b40'',
      row_account = Some ''0x0000000000001d8a2e7bf6bc369525a2654aa298'',
      row_hash = ''0xab12'', row_signature = ''0x5157'',
      row_content = Some (JStr ''ok'')\<rparr>"

definition twoProposals :: "proposal list" where
  "twoProposals = [exampleProposal\<lparr>p_userOpHash := ''0xAA''\<rparr>, exampleProposal]"

text \<open>The domain the example contract reports on Base, and the message of the example
  proposal.\<close>

definition exampleDomain :: domain where
  "exampleDomain =
     \<lparr>name = ''NANI'', version = ''1.1.1'', chainId = 8453,
      verifyingContract = ''0x0000000000001d8a2e7bf6bc369525a2654aa298''\<rparr>"

definition exampleMessage :: typedMessage where
  "exampleMessage =
     \<lparr>m_sender = ''0x0000000000001d8a2e7bf6bc369525a2654aa298'', m_nonce = 7,
      m_initCode = ''0x'', m_callData = ''0xb61d27f6'',
      m_accountGasLimits =
        ''0x000000000000000000000000000186a000000000000000000000000000010000'',
      m_preVerificationGas = 21000,
      m_gasFees = ''0x0000000000000000000000000000000100000000000000000000000000000064'',
      m_paymasterAndData = ''0x'', m_validUntil = 0, m_validAfter = 0\<rparr>"

text \<open>A nonce whose top 24 bytes are the address of the remote validator.\<close>

definition remoteNonce :: int where
  "remoteNonce = 0x159AAFCA7067005E28665A28B5B4CF * 2 ^ 64 + 1"

definition emptyWorld :: world where
  "emptyWorld =
     \<lparr>signatures = [], requests = [], sleeps = [], queries = 0, reads = [], signings = []\<rparr>"

text \<open>Modelled from the spec: the uniqueness constraint on (signer, hash) that section
  4.6 of the specification asks of the outcome store. The schema of the table
  \<^verbatim>\<open>signatures\<close> is not in the repository; with this constraint the database refuses a
  second row for a pair.\<close>

definition uniqueInsert :: "row list \<Rightarrow> row \<Rightarrow> error option" where
  "uniqueInsert t r =
     (if list_ex (\<lambda>r'. row_signer r' = row_signer r \<and> row_hash r' = row_hash r) t
      then Some (Error ''duplicate key value violates unique constraint'')
      else None)"

text \<open>No two rows of a table share their (signer, hash) pair.\<close>

definition atMostOnce :: "row list \<Rightarrow> bool" where
  "atMostOnce t = distinct (map (\<lambda>r. (row_signer r, row_hash r)) t)"

section \<open>Properties\<close>

subsection \<open>Hex digits and bytes\<close>

lemma hexVal_hexDigit: "d < 16 \<Longrightarrow> hexVal (hexDigit d) = Some d"
proof -
  have "list_all (\<lambda>d. hexVal (hexDigit d) = Some d) [0..<16]"
    by code_simp
  then show "d < 16 \<Longrightarrow> hexVal (hexDigit d) = Some d"
    by (simp add: list_all_iff)
qed

lemma hexDigit_0: "hexDigit 0 = CHR ''0''"
  by (simp add: hexDigit_def)

lemma toString16_length_pos: "0 < length (toString16 n)"
  by (subst toString16.simps) simp

lemma hexFixed_length: "length (hexFixed k n) = k"
  by (induction k arbitrary: n) simp_all

lemma hexFixed_zero: "hexFixed k 0 = replicate k CHR ''0''"
  by (induction k) (simp_all add: hexDigit_0 replicate_append_same)

lemma toString16_fixed:
  "n < 16 ^ k \<Longrightarrow> 0 < k \<Longrightarrow>
   length (toString16 n) \<le> k \<and>
   replicate (k - length (toString16 n)) CHR ''0'' @ toString16 n = hexFixed k n"
proof (induction k arbitrary: n)
  case 0
  then show ?case by simp
next
  case (Suc k)
  show ?case
  proof (cases "n < 16")
    case True
    then have ts: "toString16 n = [hexDigit n]"
      by (subst toString16.simps) simp
    from True have "n div 16 = 0" "n mod 16 = n" by simp_all
    then show ?thesis
      by (simp add: ts hexFixed_zero)
  next
    case False
    then have ts: "toString16 n = toString16 (n div 16) @ [hexDigit (n mod 16)]"
      by (subst toString16.simps) simp
    from False Suc.prems have k: "0 < k"
      by (cases k) auto
    from Suc.prems have "n div 16 < 16 ^ k"
      by (simp add: less_mult_imp_div_less mult.commute)
    from Suc.IH [OF this k] show ?thesis
      by (simp add: ts Suc_diff_le)
  qed
qed

lemma bigEndian_Suc:
  "bigEndian (Suc k) n = bigEndian k (n div 256) @ [word_of_nat n]"
proof -
  have "n div 256 ^ (k - i) = n div 256 div 256 ^ (k - 1 - i)" if "i < k" for i
  proof -
    from that have "k - i = Suc (k - 1 - i)" by simp
    then show ?thesis
      by (simp add: div_mult2_eq)
  qed
  then show ?thesis
    by (simp add: bigEndian_def)
qed

lemma bigEndian_length: "length (bigEndian k n) = k"
  by (simp add: bigEndian_def)

lemma bigEndianValue_snoc:
  "bigEndianValue (bs @ [b]) = bigEndianValue bs * 256 + unat b"
  by (simp add: bigEndianValue_def)

lemma bigEndianValue_bigEndian: "bigEndianValue (bigEndian k n) = n mod 256 ^ k"
proof (induction k arbitrary: n)
  case 0
  then show ?case by (simp add: bigEndian_def bigEndianValue_def)
next
  case (Suc k)
  have "unat (word_of_nat n :: 8 word) = n mod 256"
    by (simp add: unat_of_nat)
  then show ?case
    by (simp add: bigEndian_Suc bigEndianValue_snoc Suc.IH mod_mult2_eq)
qed

lemma bytesToDigits_snoc: "bytesToDigits (bs @ [b]) = bytesToDigits bs @ byteToHex b"
  by (simp add: bytesToDigits_def)

lemma hexFixed_bigEndian: "hexFixed (2 * k) n = bytesToDigits (bigEndian k n)"
proof (induction k arbitrary: n)
  case 0
  then show ?case by (simp add: bigEndian_def bytesToDigits_def)
next
  case (Suc k)
  have u: "unat (word_of_nat n :: 8 word) = n mod 256"
    by (simp add: unat_of_nat)
  have "n mod (16 * 16) = 16 * (n div 16 mod 16) + n mod 16"
    by (rule mod_mult2_eq)
  then have d: "n mod 256 div 16 = n div 16 mod 16" "n mod 256 mod 16 = n mod 16"
    by simp_all
  have "n div 16 div 16 = n div 256"
    by (simp add: div_mult2_eq)
  then show ?case
    by (simp add: bigEndian_Suc bytesToDigits_snoc byteToHex_def u d Suc.IH)
qed

lemma digitsToBytes_append:
  "digitsToBytes s = Some as \<Longrightarrow> digitsToBytes t = Some bs \<Longrightarrow>
   digitsToBytes (s @ t) = Some (as @ bs)"
  by (induction s arbitrary: as rule: digitsToBytes.induct)
     (auto split: option.splits)

lemma digitsToBytes_byteToHex: "digitsToBytes (byteToHex b) = Some [b]"
proof -
  have "unat b < 256"
    using unsigned_less [of b, where 'a = nat] by simp
  then have "unat b div 16 < 16"
    by simp
  moreover have "16 * (unat b div 16) + unat b mod 16 = unat b"
    by simp
  ultimately show ?thesis
    by (simp add: byteToHex_def hexVal_hexDigit)
qed

lemma digitsToBytes_bytesToDigits: "digitsToBytes (bytesToDigits bs) = Some bs"
proof (induction bs)
  case Nil
  then show ?case by (simp add: bytesToDigits_def)
next
  case (Cons b bs)
  have "bytesToDigits (b # bs) = byteToHex b @ bytesToDigits bs"
    by (simp add: bytesToDigits_def)
  then show ?case
    using digitsToBytes_append [OF digitsToBytes_byteToHex Cons.IH] by simp
qed


lemma bindE_simps [simp]: "bindE (Inr x) f = f x" "bindE (Inl e) f = Inl e"
  by (simp_all add: bindE_def)

lemma replace0x_prefix: "replace0x (''0x'' @ s) = s"
  by simp

lemma toString16_lower: "16 ^ k \<le> n \<Longrightarrow> k < length (toString16 n)"
proof (induction k arbitrary: n)
  case 0
  show ?case using toString16_length_pos [of n] by simp
next
  case (Suc k)
  have "(16::nat) \<le> 16 ^ Suc k"
    by simp
  with Suc.prems have "\<not> n < 16"
    by linarith
  then have ts: "toString16 n = toString16 (n div 16) @ [hexDigit (n mod 16)]"
    by (subst toString16.simps) simp
  from Suc.prems have "16 ^ k \<le> n div 16"
    by (simp add: less_eq_div_iff_mult_less_eq mult.commute)
  from Suc.IH [OF this] show ?case
    by (simp add: ts)
qed

lemma pad16_fits:
  assumes "0 \<le> v" "v < 2 ^ 128"
  shows "bindE (toHex v) (pad 16) = Inr (''0x'' @ bytesToDigits (bigEndian 16 (nat v)))"
proof -
  have "nat v < 2 ^ 128"
    using assms by (simp add: nat_less_iff)
  then have n: "nat v < 16 ^ 32"
    by simp
  have f: "length (toString16 (nat v)) \<le> 32 \<and>
      replicate (32 - length (toString16 (nat v))) CHR ''0'' @ toString16 (nat v) = hexFixed 32 (nat v)"
    by (rule toString16_fixed [OF n]) simp
  have "hexFixed (2 * 16) (nat v) = bytesToDigits (bigEndian 16 (nat v))"
    by (rule hexFixed_bigEndian)
  then have "hexFixed 32 (nat v) = bytesToDigits (bigEndian 16 (nat v))"
    by simp
  with f assms show ?thesis
    by (simp add: bindE_def toHex_def pad_def)
qed

lemma pad16_overflow:
  assumes "2 ^ 128 \<le> v"
  shows "bindE (toHex v) (pad 16) =
    Inl (SizeExceedsPaddingSizeError ((length (toString16 (nat v)) + 1) div 2) 16)"
proof -
  have "(2::int) ^ 128 = int (16 ^ 32)"
    by simp
  with assms have "16 ^ 32 \<le> nat v"
    by (simp add: le_nat_iff)
  then have "32 < length (toString16 (nat v))"
    by (rule toString16_lower)
  moreover have "0 \<le> v"
    using assms by (rule order_trans [rotated]) simp
  ultimately show ?thesis
    by (simp add: bindE_def toHex_def pad_def)
qed

lemma pad16_negative:
  "v < 0 \<Longrightarrow> bindE (toHex v) (pad 16) = Inl (IntegerOutOfRangeError v)"
  by (simp add: bindE_def toHex_def)

lemma concatHex_two: "concatHex [''0x'' @ a, ''0x'' @ b] = ''0x'' @ a @ b"
  by (simp add: concatHex_def)

lemma hexToBytes_digits: "hexToBytes (''0x'' @ bytesToDigits bs) = Some bs"
  by (simp add: hexToBytes_def digitsToBytes_bytesToDigits)

lemma bytesToDigits_append: "bytesToDigits (as @ bs) = bytesToDigits as @ bytesToDigits bs"
  by (simp add: bytesToDigits_def)

lemma bigEndianValue_fits: "n < 2 ^ 128 \<Longrightarrow> bigEndianValue (bigEndian 16 n) = n"
  by (simp add: bigEndianValue_bigEndian)

text \<open>
  Claim C6. For a user operation whose verificationGasLimit and callGasLimit are both
  at least 0 and below \<open>2 ^ 128\<close>, \<open>packAccountGasLimits\<close> returns a hex string that
  denotes exactly 32 bytes: the first 16 are the big-endian, zero-padded
  verificationGasLimit and the last 16 the big-endian, zero-padded callGasLimit.
\<close>

theorem packAccountGasLimits_layout:
  assumes "0 \<le> verificationGasLimit uo" "verificationGasLimit uo < 2 ^ 128"
    and "0 \<le> callGasLimit uo" "callGasLimit uo < 2 ^ 128"
  shows "\<exists>r bs. packAccountGasLimits uo = Inr r \<and> hexToBytes r = Some bs \<and>
      length bs = 32 \<and>
      take 16 bs = bigEndian 16 (nat (verificationGasLimit uo)) \<and>
      bigEndianValue (take 16 bs) = nat (verificationGasLimit uo) \<and>
      drop 16 bs = bigEndian 16 (nat (callGasLimit uo)) \<and>
      bigEndianValue (drop 16 bs) = nat (callGasLimit uo)"
proof -
  let ?v = "nat (verificationGasLimit uo)" and ?c = "nat (callGasLimit uo)"
  let ?bs = "bigEndian 16 ?v @ bigEndian 16 ?c"
  have a: "bindE (toHex (verificationGasLimit uo)) (pad 16) =
      Inr (''0x'' @ bytesToDigits (bigEndian 16 ?v))"
    by (rule pad16_fits) (fact assms)+
  have b: "bindE (toHex (callGasLimit uo)) (pad 16) =
      Inr (''0x'' @ bytesToDigits (bigEndian 16 ?c))"
    by (rule pad16_fits) (fact assms)+
  have "packAccountGasLimits uo = Inr (''0x'' @ bytesToDigits ?bs)"
    by (simp add: packAccountGasLimits_def a b concatHex_def bytesToDigits_append)
  moreover have "hexToBytes (''0x'' @ bytesToDigits ?bs) = Some ?bs"
    by (rule hexToBytes_digits)
  moreover have "?v < 2 ^ 128" "?c < 2 ^ 128"
    using assms by (simp_all add: nat_less_iff)
  then have "bigEndianValue (bigEndian 16 ?v) = ?v" "bigEndianValue (bigEndian 16 ?c) = ?c"
    by (simp_all add: bigEndianValue_fits)
  ultimately show ?thesis
    by (simp add: bigEndian_length)
qed



lemma toString16_numeral:
  "toString16 (numeral k) =
     (if numeral k < (16::nat) then [hexDigit (numeral k)]
      else toString16 (numeral k div 16) @ [hexDigit (numeral k mod 16)])"
  "toString16 0 = ''0''" "toString16 1 = ''1''" "toString16 (Suc 0) = ''1''"
  by (subst toString16.simps, simp add: hexDigit_def)+

lemma replicate_numeral: "replicate (numeral k) x = x # replicate (numeral k - 1) x"
  by (simp add: numeral_eq_Suc)

lemmas hex_eval = replicate_numeral toString16_numeral hexDigit_def toHex_def pad_def concatHex_def
  packAccountGasLimits_def packGasLimits_def packPaymasterAndData_def packInitCode_def
  truthyStr_def truthyNum_def orHex_def orZero_def

theorem packAccountGasLimits_layout_witness:
  "(\<exists>r bs. packAccountGasLimits exampleOp = Inr r \<and> hexToBytes r = Some bs \<and>
      length bs = 32 \<and>
      take 16 bs = bigEndian 16 (nat (verificationGasLimit exampleOp)) \<and>
      bigEndianValue (take 16 bs) = nat (verificationGasLimit exampleOp) \<and>
      drop 16 bs = bigEndian 16 (nat (callGasLimit exampleOp)) \<and>
      bigEndianValue (drop 16 bs) = nat (callGasLimit exampleOp)) \<and>
   packAccountGasLimits exampleOp =
     Inr ''0x000000000000000000000000000186a000000000000000000000000000010000''"
proof
  show "\<exists>r bs. packAccountGasLimits exampleOp = Inr r \<and> hexToBytes r = Some bs \<and>
      length bs = 32 \<and>
      take 16 bs = bigEndian 16 (nat (verificationGasLimit exampleOp)) \<and>
      bigEndianValue (take 16 bs) = nat (verificationGasLimit exampleOp) \<and>
      drop 16 bs = bigEndian 16 (nat (callGasLimit exampleOp)) \<and>
      bigEndianValue (drop 16 bs) = nat (callGasLimit exampleOp)"
    by (rule packAccountGasLimits_layout) (simp_all add: exampleOp_def)
  show "packAccountGasLimits exampleOp =
     Inr ''0x000000000000000000000000000186a000000000000000000000000000010000''"
    by (simp add: hex_eval exampleOp_def)
qed

lemma pad16_overflow_ex:
  assumes "2 ^ 128 \<le> v"
  shows "\<exists>n. 16 < n \<and> bindE (toHex v) (pad 16) = Inl (SizeExceedsPaddingSizeError n 16)"
proof -
  have "(2::int) ^ 128 = int (16 ^ 32)"
    by simp
  with assms have "16 ^ 32 \<le> nat v"
    by (simp add: le_nat_iff)
  then have "32 < length (toString16 (nat v))"
    by (rule toString16_lower)
  then have "16 < (length (toString16 (nat v)) + 1) div 2"
    by simp
  with pad16_overflow [OF assms] show ?thesis
    by blast
qed

lemma pad16_cases:
  "(\<exists>h. bindE (toHex v) (pad 16) = Inr h \<and> 0 \<le> v \<and> v < 2 ^ 128) \<or>
   (bindE (toHex v) (pad 16) = Inl (IntegerOutOfRangeError v) \<and> v < 0) \<or>
   (\<exists>n. 16 < n \<and> bindE (toHex v) (pad 16) = Inl (SizeExceedsPaddingSizeError n 16) \<and>
     2 ^ 128 \<le> v)"
proof -
  consider "v < 0" | "0 \<le> v" "v < 2 ^ 128" | "2 ^ 128 \<le> v"
    by linarith
  then show ?thesis
  proof cases
    case 1
    then show ?thesis by (simp add: pad16_negative)
  next
    case 2
    then show ?thesis by (simp add: pad16_fits)
  next
    case 3
    with pad16_overflow_ex [OF 3] show ?thesis by blast
  qed
qed

lemma pad_shape: "pad 16 x = Inr y \<Longrightarrow> \<exists>h. y = ''0x'' @ h \<and> length h = 32"
  by (auto simp: pad_def Let_def split: if_splits)

lemma pad16_shape: "bindE (toHex v) (pad 16) = Inr y \<Longrightarrow> \<exists>h. y = ''0x'' @ h \<and> length h = 32"
  by (cases "toHex v") (auto dest: pad_shape)

lemma packPaymasterAndData_empty_iff:
  "packPaymasterAndData uo = Inr ''0x'' \<longleftrightarrow> \<not> truthyStr (paymaster uo)"
proof (cases "truthyStr (paymaster uo)")
  case False
  then show ?thesis by (simp add: packPaymasterAndData_def)
next
  case True
  let ?a = "bindE (toHex (orZero (paymasterVerificationGasLimit uo))) (pad 16)"
  let ?b = "bindE (toHex (orZero (paymasterPostOpGasLimit uo))) (pad 16)"
  have "packPaymasterAndData uo \<noteq> Inr ''0x''"
  proof (cases ?a)
    case (Inl e)
    with True show ?thesis by (simp add: packPaymasterAndData_def)
  next
    case a: (Inr x)
    then obtain h where h: "x = ''0x'' @ h" "length h = 32"
      using pad16_shape by blast
    show ?thesis
    proof (cases ?b)
      case (Inl e)
      with True a show ?thesis by (simp add: packPaymasterAndData_def)
    next
      case b: (Inr y)
      have "length (concatHex [the (paymaster uo), x, y, orHex (paymasterData uo)]) \<ge> 34"
        using h by (simp add: concatHex_def)
      then have "concatHex [the (paymaster uo), x, y, orHex (paymasterData uo)] \<noteq> ''0x''"
        by auto
      with True a b show ?thesis by (simp add: packPaymasterAndData_def)
    qed
  qed
  with True show ?thesis by simp
qed

lemma hexToBytes_SomeD:
  "hexToBytes s = Some bs \<Longrightarrow> \<exists>ds. s = ''0x'' @ ds \<and> digitsToBytes ds = Some bs"
  by (auto simp: hexToBytes_def split: list.splits if_splits)

lemma orZero_limitOrZero: "orZero n = limitOrZero n"
  by (cases n) (simp_all add: orZero_def limitOrZero_def truthyNum_def)

lemma dataBytes_orHex:
  "dataBytes d = Some dbs \<Longrightarrow> \<exists>ds. orHex d = ''0x'' @ ds \<and> digitsToBytes ds = Some dbs"
proof (cases d)
  case None
  assume "dataBytes d = Some dbs"
  with None show ?thesis
    by (simp add: dataBytes_def orHex_def truthyStr_def)
next
  case (Some s)
  assume "dataBytes d = Some dbs"
  with Some have "hexToBytes s = Some dbs"
    by (simp add: dataBytes_def)
  then obtain ds where "s = ''0x'' @ ds" "digitsToBytes ds = Some dbs"
    using hexToBytes_SomeD by blast
  with Some show ?thesis
    by (simp add: orHex_def truthyStr_def)
qed

lemma packPaymasterAndData_bytes:
  assumes pm: "paymaster uo = Some pm" "hexToBytes pm = Some pbs"
    and d: "dataBytes (paymasterData uo) = Some dbs"
    and v: "0 \<le> limitOrZero (paymasterVerificationGasLimit uo)"
      "limitOrZero (paymasterVerificationGasLimit uo) < 2 ^ 128"
    and q: "0 \<le> limitOrZero (paymasterPostOpGasLimit uo)"
      "limitOrZero (paymasterPostOpGasLimit uo) < 2 ^ 128"
  shows "\<exists>r. packPaymasterAndData uo = Inr r \<and>
      hexToBytes r =
        Some (pbs @ bigEndian 16 (nat (limitOrZero (paymasterVerificationGasLimit uo))) @
              bigEndian 16 (nat (limitOrZero (paymasterPostOpGasLimit uo))) @ dbs)"
proof -
  let ?V = "limitOrZero (paymasterVerificationGasLimit uo)"
  let ?P = "limitOrZero (paymasterPostOpGasLimit uo)"
  obtain ps where ps: "pm = ''0x'' @ ps" "digitsToBytes ps = Some pbs"
    using hexToBytes_SomeD [OF pm(2)] by blast
  obtain ds where ds: "orHex (paymasterData uo) = ''0x'' @ ds" "digitsToBytes ds = Some dbs"
    using dataBytes_orHex [OF d] by blast
  have t: "truthyStr (paymaster uo)"
    using pm(1) ps(1) by (simp add: truthyStr_def)
  have a: "bindE (toHex (orZero (paymasterVerificationGasLimit uo))) (pad 16) =
      Inr (''0x'' @ bytesToDigits (bigEndian 16 (nat ?V)))"
    unfolding orZero_limitOrZero by (rule pad16_fits) (fact v)+
  have b: "bindE (toHex (orZero (paymasterPostOpGasLimit uo))) (pad 16) =
      Inr (''0x'' @ bytesToDigits (bigEndian 16 (nat ?P)))"
    unfolding orZero_limitOrZero by (rule pad16_fits) (fact q)+
  have r: "packPaymasterAndData uo =
      Inr (''0x'' @ ps @ bytesToDigits (bigEndian 16 (nat ?V)) @
           bytesToDigits (bigEndian 16 (nat ?P)) @ ds)"
    using t pm(1) ps(1) ds(1) by (simp add: packPaymasterAndData_def a b concatHex_def)
  have "digitsToBytes (ps @ bytesToDigits (bigEndian 16 (nat ?V)) @
           bytesToDigits (bigEndian 16 (nat ?P)) @ ds) =
        Some (pbs @ bigEndian 16 (nat ?V) @ bigEndian 16 (nat ?P) @ dbs)"
    by (intro digitsToBytes_append ps(2) ds(2) digitsToBytes_bytesToDigits)
  then show ?thesis
    by (simp add: r hexToBytes_def)
qed

lemma packPaymasterAndData_digits:
  assumes t: "truthyStr (paymaster uo)"
    and v: "0 \<le> limitOrZero (paymasterVerificationGasLimit uo)"
      "limitOrZero (paymasterVerificationGasLimit uo) < 2 ^ 128"
    and q: "0 \<le> limitOrZero (paymasterPostOpGasLimit uo)"
      "limitOrZero (paymasterPostOpGasLimit uo) < 2 ^ 128"
  shows "packPaymasterAndData uo =
      Inr (''0x'' @ replace0x (the (paymaster uo)) @
           bytesToDigits (bigEndian 16 (nat (limitOrZero (paymasterVerificationGasLimit uo)))) @
           bytesToDigits (bigEndian 16 (nat (limitOrZero (paymasterPostOpGasLimit uo)))) @
           replace0x (orHex (paymasterData uo)))"
proof -
  let ?V = "limitOrZero (paymasterVerificationGasLimit uo)"
  let ?P = "limitOrZero (paymasterPostOpGasLimit uo)"
  have a: "bindE (toHex (orZero (paymasterVerificationGasLimit uo))) (pad 16) =
      Inr (''0x'' @ bytesToDigits (bigEndian 16 (nat ?V)))"
    unfolding orZero_limitOrZero by (rule pad16_fits) (fact v)+
  have b: "bindE (toHex (orZero (paymasterPostOpGasLimit uo))) (pad 16) =
      Inr (''0x'' @ bytesToDigits (bigEndian 16 (nat ?P)))"
    unfolding orZero_limitOrZero by (rule pad16_fits) (fact q)+
  show ?thesis
    using t by (simp add: packPaymasterAndData_def a b concatHex_def)
qed

lemma packPaymasterAndData_returns_iff:
  assumes t: "truthyStr (paymaster uo)"
  shows "(\<exists>r. packPaymasterAndData uo = Inr r) \<longleftrightarrow>
     0 \<le> limitOrZero (paymasterVerificationGasLimit uo) \<and>
     limitOrZero (paymasterVerificationGasLimit uo) < 2 ^ 128 \<and>
     0 \<le> limitOrZero (paymasterPostOpGasLimit uo) \<and>
     limitOrZero (paymasterPostOpGasLimit uo) < 2 ^ 128"
proof
  assume "0 \<le> limitOrZero (paymasterVerificationGasLimit uo) \<and>
     limitOrZero (paymasterVerificationGasLimit uo) < 2 ^ 128 \<and>
     0 \<le> limitOrZero (paymasterPostOpGasLimit uo) \<and>
     limitOrZero (paymasterPostOpGasLimit uo) < 2 ^ 128"
  then show "\<exists>r. packPaymasterAndData uo = Inr r"
    using packPaymasterAndData_digits [OF t] by blast
next
  let ?V = "limitOrZero (paymasterVerificationGasLimit uo)"
  let ?P = "limitOrZero (paymasterPostOpGasLimit uo)"
  assume "\<exists>r. packPaymasterAndData uo = Inr r"
  then obtain r where r: "packPaymasterAndData uo = Inr r"
    by blast
  from r t obtain a where a: "bindE (toHex ?V) (pad 16) = Inr a"
    by (cases "bindE (toHex ?V) (pad 16)")
       (simp_all add: packPaymasterAndData_def orZero_limitOrZero)
  with r t obtain b where b: "bindE (toHex ?P) (pad 16) = Inr b"
    by (cases "bindE (toHex ?P) (pad 16)")
       (simp_all add: packPaymasterAndData_def orZero_limitOrZero)
  from a pad16_cases [of ?V] have "0 \<le> ?V \<and> ?V < 2 ^ 128"
    by auto
  moreover from b pad16_cases [of ?P] have "0 \<le> ?P \<and> ?P < 2 ^ 128"
    by auto
  ultimately show "0 \<le> ?V \<and> ?V < 2 ^ 128 \<and> 0 \<le> ?P \<and> ?P < 2 ^ 128"
    by blast
qed

text \<open>
  Claim C7. \<open>packPaymasterAndData\<close> returns the empty bytes \<^verbatim>\<open>"0x"\<close> exactly when no
  paymaster is set. When one is set it returns the bytes of the paymaster, then the
  16-byte big-endian paymasterVerificationGasLimit, then the 16-byte big-endian
  paymasterPostOpGasLimit, then the bytes of paymasterData, in this order; a missing gas
  limit counts as zero and missing paymasterData as no bytes. The gas limits are those
  that have a 16-byte encoding, from 0 to below \<open>2 ^ 128\<close>: with a paymaster set, these
  are exactly the inputs on which the function returns a result. The layout is stated
  on the bytes of well-formed hex strings, and on the digits for every string.
\<close>

theorem packPaymasterAndData_layout:
  "(packPaymasterAndData uo = Inr ''0x'' \<longleftrightarrow> \<not> truthyStr (paymaster uo)) \<and>
   (\<forall>pm pbs dbs.
      paymaster uo = Some pm \<and> hexToBytes pm = Some pbs \<and>
      dataBytes (paymasterData uo) = Some dbs \<and>
      0 \<le> limitOrZero (paymasterVerificationGasLimit uo) \<and>
      limitOrZero (paymasterVerificationGasLimit uo) < 2 ^ 128 \<and>
      0 \<le> limitOrZero (paymasterPostOpGasLimit uo) \<and>
      limitOrZero (paymasterPostOpGasLimit uo) < 2 ^ 128 \<longrightarrow>
      (\<exists>r. packPaymasterAndData uo = Inr r \<and>
         hexToBytes r =
           Some (pbs @ bigEndian 16 (nat (limitOrZero (paymasterVerificationGasLimit uo))) @
                 bigEndian 16 (nat (limitOrZero (paymasterPostOpGasLimit uo))) @ dbs))) \<and>
   (truthyStr (paymaster uo) \<and>
      0 \<le> limitOrZero (paymasterVerificationGasLimit uo) \<and>
      limitOrZero (paymasterVerificationGasLimit uo) < 2 ^ 128 \<and>
      0 \<le> limitOrZero (paymasterPostOpGasLimit uo) \<and>
      limitOrZero (paymasterPostOpGasLimit uo) < 2 ^ 128 \<longrightarrow>
      packPaymasterAndData uo =
        Inr (''0x'' @ replace0x (the (paymaster uo)) @
             bytesToDigits
               (bigEndian 16 (nat (limitOrZero (paymasterVerificationGasLimit uo)))) @
             bytesToDigits (bigEndian 16 (nat (limitOrZero (paymasterPostOpGasLimit uo)))) @
             replace0x (orHex (paymasterData uo)))) \<and>
   (truthyStr (paymaster uo) \<longrightarrow>
      ((\<exists>r. packPaymasterAndData uo = Inr r) \<longleftrightarrow>
       0 \<le> limitOrZero (paymasterVerificationGasLimit uo) \<and>
       limitOrZero (paymasterVerificationGasLimit uo) < 2 ^ 128 \<and>
       0 \<le> limitOrZero (paymasterPostOpGasLimit uo) \<and>
       limitOrZero (paymasterPostOpGasLimit uo) < 2 ^ 128))"
  using packPaymasterAndData_empty_iff [of uo] packPaymasterAndData_bytes [of uo]
    packPaymasterAndData_digits [of uo] packPaymasterAndData_returns_iff [of uo]
  by blast

lemma hexToBytes_paymaster:
  "hexToBytes ''0x00000000000032CD4FAE890F90e61e6864e44aa7'' =
     Some [0, 0, 0, 0, 0, 0, 0x32, 0xCD, 0x4F, 0xAE, 0x89, 0x0F, 0x90, 0xE6, 0x1E, 0x68,
           0x64, 0xE4, 0x4A, 0xA7]"
  by (simp add: hexToBytes_def hexVal_def)

theorem packPaymasterAndData_layout_witness:
  "(packPaymasterAndData exampleOp = Inr ''0x'' \<longleftrightarrow> \<not> truthyStr (paymaster exampleOp)) \<and>
   (\<exists>r. packPaymasterAndData exampleOp = Inr r \<and>
      hexToBytes r =
        Some ([0, 0, 0, 0, 0, 0, 0x32, 0xCD, 0x4F, 0xAE, 0x89, 0x0F, 0x90, 0xE6, 0x1E, 0x68,
               0x64, 0xE4, 0x4A, 0xA7] @ bigEndian 16 255 @ bigEndian 16 0 @ [0xBE, 0xEF])) \<and>
   packPaymasterAndData exampleOp =
     Inr ''0x00000000000032CD4FAE890F90e61e6864e44aa7000000000000000000000000000000ff00000000000000000000000000000000beef'' \<and>
   packPaymasterAndData (exampleOp\<lparr>paymaster := None\<rparr>) = Inr ''0x''"
proof (intro conjI)
  show "packPaymasterAndData exampleOp = Inr ''0x'' \<longleftrightarrow> \<not> truthyStr (paymaster exampleOp)"
    using packPaymasterAndData_layout [of exampleOp] by blast
  have d: "dataBytes (paymasterData exampleOp) = Some [0xBE, 0xEF]"
    by (simp add: exampleOp_def dataBytes_def hexToBytes_def hexVal_def)
  have p: "paymaster exampleOp = Some ''0x00000000000032CD4FAE890F90e61e6864e44aa7''"
    by (simp add: exampleOp_def)
  have l: "limitOrZero (paymasterVerificationGasLimit exampleOp) = 255"
    "limitOrZero (paymasterPostOpGasLimit exampleOp) = 0"
    by (simp_all add: exampleOp_def limitOrZero_def)
  have "\<exists>r. packPaymasterAndData exampleOp = Inr r \<and>
      hexToBytes r =
        Some ([0, 0, 0, 0, 0, 0, 0x32, 0xCD, 0x4F, 0xAE, 0x89, 0x0F, 0x90, 0xE6, 0x1E, 0x68,
               0x64, 0xE4, 0x4A, 0xA7] @
              bigEndian 16 (nat (limitOrZero (paymasterVerificationGasLimit exampleOp))) @
              bigEndian 16 (nat (limitOrZero (paymasterPostOpGasLimit exampleOp))) @
              [0xBE, 0xEF])"
    using packPaymasterAndData_layout [of exampleOp] p hexToBytes_paymaster d
    by (simp only: l) simp
  then show "\<exists>r. packPaymasterAndData exampleOp = Inr r \<and>
      hexToBytes r =
        Some ([0, 0, 0, 0, 0, 0, 0x32, 0xCD, 0x4F, 0xAE, 0x89, 0x0F, 0x90, 0xE6, 0x1E, 0x68,
               0x64, 0xE4, 0x4A, 0xA7] @ bigEndian 16 255 @ bigEndian 16 0 @ [0xBE, 0xEF])"
    by (simp add: l)
  show "packPaymasterAndData exampleOp =
     Inr ''0x00000000000032CD4FAE890F90e61e6864e44aa7000000000000000000000000000000ff00000000000000000000000000000000beef''"
    by (simp add: hex_eval exampleOp_def)
  show "packPaymasterAndData (exampleOp\<lparr>paymaster := None\<rparr>) = Inr ''0x''"
    by (simp add: hex_eval exampleOp_def)
qed

lemma pack_two_overflow:
  assumes "2 ^ 128 \<le> x \<or> 2 ^ 128 \<le> y"
  shows "\<exists>err. bindE (bindE (toHex x) (pad 16)) (\<lambda>a.
           bindE (bindE (toHex y) (pad 16)) (\<lambda>b. Inr (concatHex [a, b]))) = Inl err \<and>
         (0 \<le> x \<and> 0 \<le> y \<longrightarrow> (\<exists>n. 16 < n \<and> err = SizeExceedsPaddingSizeError n 16))"
proof -
  let ?X = "bindE (toHex x) (pad 16)" and ?Y = "bindE (toHex y) (pad 16)"
  from pad16_cases [of x] consider
      (fits) h where "?X = Inr h" "x < 2 ^ 128"
    | (negative) "?X = Inl (IntegerOutOfRangeError x)" "x < 0"
    | (wide) n where "16 < n" "?X = Inl (SizeExceedsPaddingSizeError n 16)"
    by blast
  then show ?thesis
  proof cases
    case fits
    with assms have "2 ^ 128 \<le> y"
      by linarith
    from pad16_overflow_ex [OF this] obtain n where
      "16 < n" "?Y = Inl (SizeExceedsPaddingSizeError n 16)"
      by blast
    with fits show ?thesis
      by simp
  next
    case negative
    then show ?thesis
      by simp
  next
    case wide
    then show ?thesis
      by simp
  qed
qed

text \<open>
  Claim C8, as amended. A packed field of at least \<open>2 ^ 128\<close> does not overflow its
  16-byte limb: \<open>pad\<close> throws, so \<open>packAccountGasLimits\<close> and \<open>packGasLimits\<close> raise an
  error and return no result; when neither field is negative the error is
  SizeExceedsPaddingSizeError, for a size above 16.
\<close>

theorem pack_overflow_raises:
  "(2 ^ 128 \<le> verificationGasLimit uo \<or> 2 ^ 128 \<le> callGasLimit uo \<longrightarrow>
      (\<exists>err. packAccountGasLimits uo = Inl err \<and>
         (0 \<le> verificationGasLimit uo \<and> 0 \<le> callGasLimit uo \<longrightarrow>
            (\<exists>n. 16 < n \<and> err = SizeExceedsPaddingSizeError n 16)))) \<and>
   (2 ^ 128 \<le> maxPriorityFeePerGas uo \<or> 2 ^ 128 \<le> maxFeePerGas uo \<longrightarrow>
      (\<exists>err. packGasLimits uo = Inl err \<and>
         (0 \<le> maxPriorityFeePerGas uo \<and> 0 \<le> maxFeePerGas uo \<longrightarrow>
            (\<exists>n. 16 < n \<and> err = SizeExceedsPaddingSizeError n 16))))"
  unfolding packAccountGasLimits_def packGasLimits_def
  using pack_two_overflow [of "verificationGasLimit uo" "callGasLimit uo"]
    pack_two_overflow [of "maxPriorityFeePerGas uo" "maxFeePerGas uo"]
  by blast

theorem pack_overflow_raises_witness:
  "(\<exists>err. packAccountGasLimits (exampleOp\<lparr>callGasLimit := 2 ^ 128\<rparr>) = Inl err \<and>
      (\<exists>n. 16 < n \<and> err = SizeExceedsPaddingSizeError n 16)) \<and>
   (\<exists>err. packGasLimits (exampleOp\<lparr>maxPriorityFeePerGas := 2 ^ 200\<rparr>) = Inl err \<and>
      (\<exists>n. 16 < n \<and> err = SizeExceedsPaddingSizeError n 16))"
  using pack_overflow_raises [of "exampleOp\<lparr>callGasLimit := 2 ^ 128\<rparr>"]
    pack_overflow_raises [of "exampleOp\<lparr>maxPriorityFeePerGas := 2 ^ 200\<rparr>"]
  by (simp add: exampleOp_def)

text \<open>The claim as stated (a silent overflow that returns a result) fails: at
  \<open>2 ^ 128\<close> each of the four fields makes its packing function raise.\<close>

theorem pack_overflow_counterexample:
  "packAccountGasLimits (exampleOp\<lparr>verificationGasLimit := 2 ^ 128\<rparr>) =
     Inl (SizeExceedsPaddingSizeError 17 16) \<and>
   packAccountGasLimits (exampleOp\<lparr>callGasLimit := 2 ^ 128\<rparr>) =
     Inl (SizeExceedsPaddingSizeError 17 16) \<and>
   packGasLimits (exampleOp\<lparr>maxFeePerGas := 2 ^ 128\<rparr>) =
     Inl (SizeExceedsPaddingSizeError 17 16) \<and>
   packGasLimits (exampleOp\<lparr>maxPriorityFeePerGas := 2 ^ 128\<rparr>) =
     Inl (SizeExceedsPaddingSizeError 17 16)"
  by (simp add: hex_eval exampleOp_def)

subsection \<open>The evaluator\<close>

lemma makeRequest_eq:
  "makeRequest e p i w =
     (case fetchText e (length (requests w)) (systemContent i (p_content p)) of
        Inl err \<Rightarrow> Inl err
      | Inr body \<Rightarrow> Inr (case JSON_parse e body of Some v \<Rightarrow> v | None \<Rightarrow> JNull),
      w\<lparr>requests := requests w @ [systemContent i (p_content p)]\<rparr>)"
  by (simp add: makeRequest_def Let_def split: sum.splits option.splits)

lemma getNaniVote_first:
  assumes "fetchText e (length (requests w)) (systemContent [] (p_content p)) = Inr body"
    and "JSON_parse e body = Some v" and "truthy v"
  shows "getNaniVote e p w =
    (Inr v, w\<lparr>requests := requests w @ [systemContent [] (p_content p)]\<rparr>)"
  using assms by (simp add: getNaniVote_def makeRequest_eq)

lemma getNaniVote_requests:
  "\<exists>k. 1 \<le> k \<and> k \<le> 3 \<and>
     snd (getNaniVote e p w) =
       w\<lparr>requests := requests w @
          take k [systemContent [] (p_content p),
                  systemContent secondInstruction (p_content p),
                  systemContent finalInstruction (p_content p)]\<rparr>"
proof -
  let ?P = "\<lambda>k. snd (getNaniVote e p w) =
       w\<lparr>requests := requests w @
          take k [systemContent [] (p_content p),
                  systemContent secondInstruction (p_content p),
                  systemContent finalInstruction (p_content p)]\<rparr>"
  have "?P 1 \<or> ?P 2 \<or> ?P 3"
    by (simp add: getNaniVote_def makeRequest_eq split: sum.splits)
  then consider "?P 1" | "?P 2" | "?P 3"
    by blast
  then show ?thesis
  proof cases
    case 1
    then show ?thesis by (intro exI [of _ 1]) simp
  next
    case 2
    then show ?thesis by (intro exI [of _ 2]) simp
  next
    case 3
    then show ?thesis by (intro exI [of _ 3]) simp
  qed
qed

lemma getNaniVote_exhausted:
  assumes "fetchText e (length (requests w)) (systemContent [] (p_content p)) = Inr b1"
    and "fetchText e (length (requests w) + 1)
           (systemContent secondInstruction (p_content p)) = Inr b2"
    and "fetchText e (length (requests w) + 2)
           (systemContent finalInstruction (p_content p)) = Inr b3"
    and "JSON_parse e b1 = None" "JSON_parse e b2 = None" "JSON_parse e b3 = None"
  shows "getNaniVote e p w =
    (Inl (Error ''Failed to get valid JSON response after 3 attempts''),
     w\<lparr>requests := requests w @
        [systemContent [] (p_content p),
         systemContent secondInstruction (p_content p),
         systemContent finalInstruction (p_content p)]\<rparr>)"
  using assms by (simp add: getNaniVote_def makeRequest_eq)

text \<open>
  Claim C3, as amended. \<open>getNaniVote\<close> sends at most three requests, with the
  instruction texts of the source in their order (none, then the second, then the final
  one). A first response whose body parses to a truthy JSON value is returned unmodified
  after that single request. After three responses that do not parse it raises
  \<^verbatim>\<open>Failed to get valid JSON response after 3 attempts\<close> and has sent exactly three
  requests.
\<close>

theorem getNaniVote_attempts:
  "(\<exists>k. 1 \<le> k \<and> k \<le> 3 \<and>
      snd (getNaniVote e p w) =
        w\<lparr>requests := requests w @
           take k [systemContent [] (p_content p),
                   systemContent secondInstruction (p_content p),
                   systemContent finalInstruction (p_content p)]\<rparr>) \<and>
   (\<forall>body v.
      fetchText e (length (requests w)) (systemContent [] (p_content p)) = Inr body \<and>
      JSON_parse e body = Some v \<and> truthy v \<longrightarrow>
      getNaniVote e p w =
        (Inr v, w\<lparr>requests := requests w @ [systemContent [] (p_content p)]\<rparr>)) \<and>
   (\<forall>b1 b2 b3.
      fetchText e (length (requests w)) (systemContent [] (p_content p)) = Inr b1 \<and>
      fetchText e (length (requests w) + 1)
        (systemContent secondInstruction (p_content p)) = Inr b2 \<and>
      fetchText e (length (requests w) + 2)
        (systemContent finalInstruction (p_content p)) = Inr b3 \<and>
      JSON_parse e b1 = None \<and> JSON_parse e b2 = None \<and> JSON_parse e b3 = None \<longrightarrow>
      getNaniVote e p w =
        (Inl (Error ''Failed to get valid JSON response after 3 attempts''),
         w\<lparr>requests := requests w @
            [systemContent [] (p_content p),
             systemContent secondInstruction (p_content p),
             systemContent finalInstruction (p_content p)]\<rparr>))"
  using getNaniVote_requests [of e p w] getNaniVote_first [of e w p]
    getNaniVote_exhausted [of e w p]
  by blast

lemmas example_eval = exampleEnv_def exampleParse_def replies_def exampleProposal_def
  emptyWorld_def exampleAccount_def

theorem getNaniVote_attempts_witness:
  \<open>getNaniVote exampleEnv exampleProposal emptyWorld =
     (Inr (JObj [(''vote'', JBool True), (''reason'', JStr ''ok'')]),
      emptyWorld\<lparr>requests := [systemContent [] (p_content exampleProposal)]\<rparr>) \<and>
   getNaniVote
     (exampleEnv\<lparr>fetchText := replies [''I approve this proposal.'',
        ''I approve this proposal.'', ''I approve this proposal.'',
        ''{"vote":true,"reason":"ok"}'']\<rparr>)
     exampleProposal emptyWorld =
     (Inl (Error ''Failed to get valid JSON response after 3 attempts''),
      emptyWorld\<lparr>requests :=
        [systemContent [] (p_content exampleProposal),
         systemContent secondInstruction (p_content exampleProposal),
         systemContent finalInstruction (p_content exampleProposal)]\<rparr>)\<close>
proof
  let ?e = \<open>exampleEnv\<lparr>fetchText := replies [''I approve this proposal.'',
        ''I approve this proposal.'', ''I approve this proposal.'',
        ''{"vote":true,"reason":"ok"}'']\<rparr>\<close>
  have a: \<open>fetchText exampleEnv (length (requests emptyWorld))
        (systemContent [] (p_content exampleProposal)) = Inr ''{"vote":true,"reason":"ok"}'' \<and>
      JSON_parse exampleEnv ''{"vote":true,"reason":"ok"}'' =
        Some (JObj [(''vote'', JBool True), (''reason'', JStr ''ok'')]) \<and>
      truthy (JObj [(''vote'', JBool True), (''reason'', JStr ''ok'')])\<close>
    by (simp add: example_eval)
  show \<open>getNaniVote exampleEnv exampleProposal emptyWorld =
     (Inr (JObj [(''vote'', JBool True), (''reason'', JStr ''ok'')]),
      emptyWorld\<lparr>requests := [systemContent [] (p_content exampleProposal)]\<rparr>)\<close>
    using getNaniVote_attempts [of exampleEnv exampleProposal emptyWorld] a
    by (simp add: emptyWorld_def)
  have b: "fetchText ?e (length (requests emptyWorld))
        (systemContent [] (p_content exampleProposal)) = Inr ''I approve this proposal.'' \<and>
      fetchText ?e (length (requests emptyWorld) + 1)
        (systemContent secondInstruction (p_content exampleProposal)) =
        Inr ''I approve this proposal.'' \<and>
      fetchText ?e (length (requests emptyWorld) + 2)
        (systemContent finalInstruction (p_content exampleProposal)) =
        Inr ''I approve this proposal.'' \<and>
      JSON_parse ?e ''I approve this proposal.'' = None"
    by (simp add: example_eval)
  show "getNaniVote ?e exampleProposal emptyWorld =
     (Inl (Error ''Failed to get valid JSON response after 3 attempts''),
      emptyWorld\<lparr>requests :=
        [systemContent [] (p_content exampleProposal),
         systemContent secondInstruction (p_content exampleProposal),
         systemContent finalInstruction (p_content exampleProposal)]\<rparr>)"
    using getNaniVote_attempts [of ?e exampleProposal emptyWorld] b
    by (simp add: emptyWorld_def)
qed

text \<open>The claim as stated fails for a body that parses to a falsy value: \<^verbatim>\<open>false\<close> is
  valid JSON, yet it is not returned and a second request is sent.\<close>

theorem getNaniVote_falsy_counterexample:
  \<open>JSON_parse exampleEnv ''false'' = Some (JBool False) \<and>
   getNaniVote
     (exampleEnv\<lparr>fetchText := replies [''false'', ''{"vote":true,"reason":"ok"}'']\<rparr>)
     exampleProposal emptyWorld =
     (Inr (JObj [(''vote'', JBool True), (''reason'', JStr ''ok'')]),
      emptyWorld\<lparr>requests :=
        [systemContent [] (p_content exampleProposal),
         systemContent secondInstruction (p_content exampleProposal)]\<rparr>)\<close>
  by (simp add: getNaniVote_def makeRequest_eq example_eval)

lemma makeRequest_truthy:
  assumes "fetchText e (length (requests w)) (systemContent i (p_content p)) = Inr body"
  shows "\<exists>v. fst (makeRequest e p i w) = Inr v \<and>
      (truthy v \<longleftrightarrow> (\<exists>j. JSON_parse e body = Some j \<and> truthy j)) \<and>
      (\<forall>j. JSON_parse e body = Some j \<and> truthy j \<longrightarrow> v = j)"
  using assms by (cases "JSON_parse e body") (simp_all add: makeRequest_eq)

lemma getNaniVote_first_iff:
  assumes "fetchText e (length (requests w)) (systemContent [] (p_content p)) = Inr body"
  shows "(\<exists>v. getNaniVote e p w =
            (Inr v, w\<lparr>requests := requests w @ [systemContent [] (p_content p)]\<rparr>)) \<longleftrightarrow>
         (\<exists>j. JSON_parse e body = Some j \<and> truthy j)"
proof
  assume "\<exists>j. JSON_parse e body = Some j \<and> truthy j"
  then show "\<exists>v. getNaniVote e p w =
      (Inr v, w\<lparr>requests := requests w @ [systemContent [] (p_content p)]\<rparr>)"
    using getNaniVote_first [OF assms] by blast
next
  assume r: "\<exists>v. getNaniVote e p w =
      (Inr v, w\<lparr>requests := requests w @ [systemContent [] (p_content p)]\<rparr>)"
  show "\<exists>j. JSON_parse e body = Some j \<and> truthy j"
  proof (rule ccontr)
    assume n: "\<not> (\<exists>j. JSON_parse e body = Some j \<and> truthy j)"
    then have f: "\<not> truthy (case JSON_parse e body of Some v \<Rightarrow> v | None \<Rightarrow> JNull)"
      by (cases "JSON_parse e body") simp_all
    have "requests (snd (getNaniVote e p w)) \<noteq> requests w @ [systemContent [] (p_content p)]"
      using assms f by (simp add: getNaniVote_def makeRequest_eq split: sum.splits)
    with r show False
      by auto
  qed
qed

lemma truthy_parsed:
  "truthy (case JSON_parse e body of Some v \<Rightarrow> v | None \<Rightarrow> JNull) \<longleftrightarrow>
     (\<exists>j. JSON_parse e body = Some j \<and> truthy j)"
  by (cases "JSON_parse e body") simp_all

lemma getNaniVote_second:
  assumes "fetchText e (length (requests w)) (systemContent [] (p_content p)) = Inr b1"
    and "\<not> (\<exists>j. JSON_parse e b1 = Some j \<and> truthy j)"
    and "fetchText e (length (requests w) + 1)
           (systemContent secondInstruction (p_content p)) = Inr body"
    and "JSON_parse e body = Some v" and "truthy v"
  shows "getNaniVote e p w =
    (Inr v, w\<lparr>requests := requests w @
       [systemContent [] (p_content p),
        systemContent secondInstruction (p_content p)]\<rparr>)"
proof -
  have "\<not> truthy (case JSON_parse e b1 of Some v \<Rightarrow> v | None \<Rightarrow> JNull)"
    unfolding truthy_parsed by (fact assms(2))
  with assms(1,3,4,5) show ?thesis
    by (simp add: getNaniVote_def makeRequest_eq)
qed

lemma getNaniVote_second_iff:
  assumes "fetchText e (length (requests w)) (systemContent [] (p_content p)) = Inr b1"
    and "\<not> (\<exists>j. JSON_parse e b1 = Some j \<and> truthy j)"
    and "fetchText e (length (requests w) + 1)
           (systemContent secondInstruction (p_content p)) = Inr body"
  shows "(\<exists>v. getNaniVote e p w =
            (Inr v, w\<lparr>requests := requests w @
               [systemContent [] (p_content p),
                systemContent secondInstruction (p_content p)]\<rparr>)) \<longleftrightarrow>
         (\<exists>j. JSON_parse e body = Some j \<and> truthy j)"
proof
  assume "\<exists>j. JSON_parse e body = Some j \<and> truthy j"
  then show "\<exists>v. getNaniVote e p w =
      (Inr v, w\<lparr>requests := requests w @
         [systemContent [] (p_content p),
          systemContent secondInstruction (p_content p)]\<rparr>)"
    using getNaniVote_second [OF assms] by blast
next
  assume r: "\<exists>v. getNaniVote e p w =
      (Inr v, w\<lparr>requests := requests w @
         [systemContent [] (p_content p),
          systemContent secondInstruction (p_content p)]\<rparr>)"
  show "\<exists>j. JSON_parse e body = Some j \<and> truthy j"
  proof (rule ccontr)
    assume n: "\<not> (\<exists>j. JSON_parse e body = Some j \<and> truthy j)"
    have f1: "\<not> truthy (case JSON_parse e b1 of Some v \<Rightarrow> v | None \<Rightarrow> JNull)"
      unfolding truthy_parsed by (fact assms(2))
    have f2: "\<not> truthy (case JSON_parse e body of Some v \<Rightarrow> v | None \<Rightarrow> JNull)"
      unfolding truthy_parsed by (fact n)
    have "requests (snd (getNaniVote e p w)) \<noteq>
        requests w @ [systemContent [] (p_content p),
                      systemContent secondInstruction (p_content p)]"
      using assms(1,3) f1 f2
      by (simp add: getNaniVote_def makeRequest_eq split: sum.splits)
    with r show False
      by auto
  qed
qed

lemma getNaniVote_third:
  assumes "fetchText e (length (requests w)) (systemContent [] (p_content p)) = Inr b1"
    and "\<not> (\<exists>j. JSON_parse e b1 = Some j \<and> truthy j)"
    and "fetchText e (length (requests w) + 1)
           (systemContent secondInstruction (p_content p)) = Inr b2"
    and "\<not> (\<exists>j. JSON_parse e b2 = Some j \<and> truthy j)"
    and "fetchText e (length (requests w) + 2)
           (systemContent finalInstruction (p_content p)) = Inr body"
  shows "getNaniVote e p w =
    ((case JSON_parse e body of
        Some v \<Rightarrow>
          if truthy v then Inr v
          else Inl (Error ''Failed to get valid JSON response after 3 attempts'')
      | None \<Rightarrow> Inl (Error ''Failed to get valid JSON response after 3 attempts'')),
     w\<lparr>requests := requests w @
       [systemContent [] (p_content p),
        systemContent secondInstruction (p_content p),
        systemContent finalInstruction (p_content p)]\<rparr>)"
proof -
  have "\<not> truthy (case JSON_parse e b1 of Some v \<Rightarrow> v | None \<Rightarrow> JNull)"
    "\<not> truthy (case JSON_parse e b2 of Some v \<Rightarrow> v | None \<Rightarrow> JNull)"
    unfolding truthy_parsed by (fact assms(2), fact assms(4))
  with assms(1,3,5) show ?thesis
    by (cases "JSON_parse e body") (simp_all add: getNaniVote_def makeRequest_eq)
qed

lemma getNaniVote_third_cases:
  assumes "fetchText e (length (requests w)) (systemContent [] (p_content p)) = Inr b1"
    and "\<not> (\<exists>j. JSON_parse e b1 = Some j \<and> truthy j)"
    and "fetchText e (length (requests w) + 1)
           (systemContent secondInstruction (p_content p)) = Inr b2"
    and "\<not> (\<exists>j. JSON_parse e b2 = Some j \<and> truthy j)"
    and "fetchText e (length (requests w) + 2)
           (systemContent finalInstruction (p_content p)) = Inr body"
  shows "((\<exists>v. getNaniVote e p w =
             (Inr v, w\<lparr>requests := requests w @
                [systemContent [] (p_content p),
                 systemContent secondInstruction (p_content p),
                 systemContent finalInstruction (p_content p)]\<rparr>)) \<longleftrightarrow>
           (\<exists>j. JSON_parse e body = Some j \<and> truthy j)) \<and>
         (\<forall>j. JSON_parse e body = Some j \<and> truthy j \<longrightarrow>
            getNaniVote e p w =
              (Inr j, w\<lparr>requests := requests w @
                 [systemContent [] (p_content p),
                  systemContent secondInstruction (p_content p),
                  systemContent finalInstruction (p_content p)]\<rparr>)) \<and>
         (\<not> (\<exists>j. JSON_parse e body = Some j \<and> truthy j) \<longrightarrow>
            getNaniVote e p w =
              (Inl (Error ''Failed to get valid JSON response after 3 attempts''),
               w\<lparr>requests := requests w @
                 [systemContent [] (p_content p),
                  systemContent secondInstruction (p_content p),
                  systemContent finalInstruction (p_content p)]\<rparr>))"
  unfolding getNaniVote_third [OF assms]
  by (cases "JSON_parse e body") auto

text \<open>
  Claim C5, as amended. An attempt counts as successful exactly when the response body
  parses as JSON to a truthy value (anything but \<^verbatim>\<open>null\<close>, \<^verbatim>\<open>false\<close>, \<^verbatim>\<open>0\<close> and the empty
  string); the value is then returned as parsed, whatever its shape. For every
  instruction text \<open>makeRequest\<close> yields a truthy value exactly in that case. For each of
  the three attempts that \<open>getNaniVote\<close> reaches (the earlier bodies not having parsed
  to a truthy value), it returns right after that request exactly in that case, and
  then returns the parsed value itself; a third body that does not parse to a truthy
  value ends in the format error.
\<close>

theorem attempt_success_criterion:
  "(\<forall>body.
      fetchText e (length (requests w)) (systemContent i (p_content p)) = Inr body \<longrightarrow>
      (\<exists>v. fst (makeRequest e p i w) = Inr v \<and>
         (truthy v \<longleftrightarrow> (\<exists>j. JSON_parse e body = Some j \<and> truthy j)) \<and>
         (\<forall>j. JSON_parse e body = Some j \<and> truthy j \<longrightarrow> v = j))) \<and>
   (\<forall>body.
      fetchText e (length (requests w)) (systemContent [] (p_content p)) = Inr body \<longrightarrow>
      ((\<exists>v. getNaniVote e p w =
          (Inr v, w\<lparr>requests := requests w @ [systemContent [] (p_content p)]\<rparr>)) \<longleftrightarrow>
       (\<exists>j. JSON_parse e body = Some j \<and> truthy j)) \<and>
      (\<forall>j. JSON_parse e body = Some j \<and> truthy j \<longrightarrow>
         getNaniVote e p w =
           (Inr j, w\<lparr>requests := requests w @ [systemContent [] (p_content p)]\<rparr>))) \<and>
   (\<forall>b1 body.
      fetchText e (length (requests w)) (systemContent [] (p_content p)) = Inr b1 \<and>
      \<not> (\<exists>j. JSON_parse e b1 = Some j \<and> truthy j) \<and>
      fetchText e (length (requests w) + 1)
        (systemContent secondInstruction (p_content p)) = Inr body \<longrightarrow>
      ((\<exists>v. getNaniVote e p w =
          (Inr v, w\<lparr>requests := requests w @
             [systemContent [] (p_content p),
              systemContent secondInstruction (p_content p)]\<rparr>)) \<longleftrightarrow>
       (\<exists>j. JSON_parse e body = Some j \<and> truthy j)) \<and>
      (\<forall>j. JSON_parse e body = Some j \<and> truthy j \<longrightarrow>
         getNaniVote e p w =
           (Inr j, w\<lparr>requests := requests w @
              [systemContent [] (p_content p),
               systemContent secondInstruction (p_content p)]\<rparr>))) \<and>
   (\<forall>b1 b2 body.
      fetchText e (length (requests w)) (systemContent [] (p_content p)) = Inr b1 \<and>
      \<not> (\<exists>j. JSON_parse e b1 = Some j \<and> truthy j) \<and>
      fetchText e (length (requests w) + 1)
        (systemContent secondInstruction (p_content p)) = Inr b2 \<and>
      \<not> (\<exists>j. JSON_parse e b2 = Some j \<and> truthy j) \<and>
      fetchText e (length (requests w) + 2)
        (systemContent finalInstruction (p_content p)) = Inr body \<longrightarrow>
      ((\<exists>v. getNaniVote e p w =
          (Inr v, w\<lparr>requests := requests w @
             [systemContent [] (p_content p),
              systemContent secondInstruction (p_content p),
              systemContent finalInstruction (p_content p)]\<rparr>)) \<longleftrightarrow>
       (\<exists>j. JSON_parse e body = Some j \<and> truthy j)) \<and>
      (\<forall>j. JSON_parse e body = Some j \<and> truthy j \<longrightarrow>
         getNaniVote e p w =
           (Inr j, w\<lparr>requests := requests w @
              [systemContent [] (p_content p),
               systemContent secondInstruction (p_content p),
               systemContent finalInstruction (p_content p)]\<rparr>)) \<and>
      (\<not> (\<exists>j. JSON_parse e body = Some j \<and> truthy j) \<longrightarrow>
         getNaniVote e p w =
           (Inl (Error ''Failed to get valid JSON response after 3 attempts''),
            w\<lparr>requests := requests w @
              [systemContent [] (p_content p),
               systemContent secondInstruction (p_content p),
               systemContent finalInstruction (p_content p)]\<rparr>)))"
proof (intro conjI allI impI)
  fix body
  assume "fetchText e (length (requests w)) (systemContent i (p_content p)) = Inr body"
  then show "\<exists>v. fst (makeRequest e p i w) = Inr v \<and>
         (truthy v \<longleftrightarrow> (\<exists>j. JSON_parse e body = Some j \<and> truthy j)) \<and>
         (\<forall>j. JSON_parse e body = Some j \<and> truthy j \<longrightarrow> v = j)"
    by (rule makeRequest_truthy)
next
  fix body
  assume "fetchText e (length (requests w)) (systemContent [] (p_content p)) = Inr body"
  then show "(\<exists>v. getNaniVote e p w =
          (Inr v, w\<lparr>requests := requests w @ [systemContent [] (p_content p)]\<rparr>)) \<longleftrightarrow>
       (\<exists>j. JSON_parse e body = Some j \<and> truthy j)"
    by (rule getNaniVote_first_iff)
next
  fix body j
  assume "fetchText e (length (requests w)) (systemContent [] (p_content p)) = Inr body"
    and "JSON_parse e body = Some j \<and> truthy j"
  then show "getNaniVote e p w =
      (Inr j, w\<lparr>requests := requests w @ [systemContent [] (p_content p)]\<rparr>)"
    using getNaniVote_first [of e w p body j] by blast
next
  fix b1 body
  assume a: "fetchText e (length (requests w)) (systemContent [] (p_content p)) = Inr b1 \<and>
      \<not> (\<exists>j. JSON_parse e b1 = Some j \<and> truthy j) \<and>
      fetchText e (length (requests w) + 1)
        (systemContent secondInstruction (p_content p)) = Inr body"
  then show "(\<exists>v. getNaniVote e p w =
          (Inr v, w\<lparr>requests := requests w @
             [systemContent [] (p_content p),
              systemContent secondInstruction (p_content p)]\<rparr>)) \<longleftrightarrow>
       (\<exists>j. JSON_parse e body = Some j \<and> truthy j)"
    using getNaniVote_second_iff [of e w p b1 body] by blast
next
  fix b1 body j
  assume "fetchText e (length (requests w)) (systemContent [] (p_content p)) = Inr b1 \<and>
      \<not> (\<exists>j. JSON_parse e b1 = Some j \<and> truthy j) \<and>
      fetchText e (length (requests w) + 1)
        (systemContent secondInstruction (p_content p)) = Inr body"
    and "JSON_parse e body = Some j \<and> truthy j"
  then show "getNaniVote e p w =
      (Inr j, w\<lparr>requests := requests w @
         [systemContent [] (p_content p),
          systemContent secondInstruction (p_content p)]\<rparr>)"
    using getNaniVote_second [of e w p b1 body j] by blast
next
  fix b1 b2 body
  assume a: "fetchText e (length (requests w)) (systemContent [] (p_content p)) = Inr b1 \<and>
      \<not> (\<exists>j. JSON_parse e b1 = Some j \<and> truthy j) \<and>
      fetchText e (length (requests w) + 1)
        (systemContent secondInstruction (p_content p)) = Inr b2 \<and>
      \<not> (\<exists>j. JSON_parse e b2 = Some j \<and> truthy j) \<and>
      fetchText e (length (requests w) + 2)
        (systemContent finalInstruction (p_content p)) = Inr body"
  note c = getNaniVote_third_cases [of e w p b1 b2 body]
  from a c show "(\<exists>v. getNaniVote e p w =
          (Inr v, w\<lparr>requests := requests w @
             [systemContent [] (p_content p),
              systemContent secondInstruction (p_content p),
              systemContent finalInstruction (p_content p)]\<rparr>)) \<longleftrightarrow>
       (\<exists>j. JSON_parse e body = Some j \<and> truthy j)"
    by blast
  {
    fix j
    assume "JSON_parse e body = Some j \<and> truthy j"
    with a c show "getNaniVote e p w =
        (Inr j, w\<lparr>requests := requests w @
           [systemContent [] (p_content p),
            systemContent secondInstruction (p_content p),
            systemContent finalInstruction (p_content p)]\<rparr>)"
      by blast
  }
  assume "\<not> (\<exists>j. JSON_parse e body = Some j \<and> truthy j)"
  with a c show "getNaniVote e p w =
      (Inl (Error ''Failed to get valid JSON response after 3 attempts''),
       w\<lparr>requests := requests w @
         [systemContent [] (p_content p),
          systemContent secondInstruction (p_content p),
          systemContent finalInstruction (p_content p)]\<rparr>)"
    by blast
qed

theorem attempt_success_criterion_witness:
  \<open>(\<exists>v. fst (makeRequest
       (exampleEnv\<lparr>fetchText := replies [''{"reason":"unsure"}'']\<rparr>)
       exampleProposal secondInstruction emptyWorld) = Inr v \<and> truthy v \<and>
       v = JObj [(''reason'', JStr ''unsure'')]) \<and>
   getNaniVote (exampleEnv\<lparr>fetchText := replies [''{"reason":"unsure"}'']\<rparr>)
     exampleProposal emptyWorld =
     (Inr (JObj [(''reason'', JStr ''unsure'')]),
      emptyWorld\<lparr>requests := [systemContent [] (p_content exampleProposal)]\<rparr>) \<and>
   getNaniVote
     (exampleEnv\<lparr>fetchText := replies [''I approve this proposal.'',
        ''{"reason":"unsure"}'', ''I approve this proposal.'']\<rparr>)
     exampleProposal emptyWorld =
     (Inr (JObj [(''reason'', JStr ''unsure'')]),
      emptyWorld\<lparr>requests :=
        [systemContent [] (p_content exampleProposal),
         systemContent secondInstruction (p_content exampleProposal)]\<rparr>) \<and>
   getNaniVote
     (exampleEnv\<lparr>fetchText := replies [''null'', ''I approve this proposal.'',
        ''{"reason":"unsure"}'']\<rparr>)
     exampleProposal emptyWorld =
     (Inr (JObj [(''reason'', JStr ''unsure'')]),
      emptyWorld\<lparr>requests :=
        [systemContent [] (p_content exampleProposal),
         systemContent secondInstruction (p_content exampleProposal),
         systemContent finalInstruction (p_content exampleProposal)]\<rparr>)\<close>
proof (intro conjI)
  let ?e = \<open>exampleEnv\<lparr>fetchText := replies [''{"reason":"unsure"}'']\<rparr>\<close>
  have a: \<open>fetchText ?e (length (requests emptyWorld))
      (systemContent i (p_content exampleProposal)) = Inr ''{"reason":"unsure"}''\<close> for i
    by (simp add: example_eval)
  have b: \<open>JSON_parse ?e ''{"reason":"unsure"}'' =
      Some (JObj [(''reason'', JStr ''unsure'')])\<close>
    by (simp add: example_eval)
  show \<open>\<exists>v. fst (makeRequest ?e exampleProposal secondInstruction emptyWorld) = Inr v \<and>
      truthy v \<and> v = JObj [(''reason'', JStr ''unsure'')]\<close>
    using attempt_success_criterion [of ?e emptyWorld secondInstruction exampleProposal]
      a [of secondInstruction] b
    by auto
  show \<open>getNaniVote ?e exampleProposal emptyWorld =
     (Inr (JObj [(''reason'', JStr ''unsure'')]),
      emptyWorld\<lparr>requests := [systemContent [] (p_content exampleProposal)]\<rparr>)\<close>
    using attempt_success_criterion [of ?e emptyWorld _ exampleProposal] a [of "[]"] b
    by (auto simp: emptyWorld_def)
next
  let ?e = \<open>exampleEnv\<lparr>fetchText := replies [''I approve this proposal.'',
        ''{"reason":"unsure"}'', ''I approve this proposal.'']\<rparr>\<close>
  have h: \<open>fetchText ?e (length (requests emptyWorld))
        (systemContent [] (p_content exampleProposal)) = Inr ''I approve this proposal.'' \<and>
      \<not> (\<exists>j. JSON_parse ?e ''I approve this proposal.'' = Some j \<and> truthy j) \<and>
      fetchText ?e (length (requests emptyWorld) + 1)
        (systemContent secondInstruction (p_content exampleProposal)) =
        Inr ''{"reason":"unsure"}''\<close>
    by (simp add: example_eval)
  have b: \<open>JSON_parse ?e ''{"reason":"unsure"}'' =
      Some (JObj [(''reason'', JStr ''unsure'')]) \<and>
      truthy (JObj [(''reason'', JStr ''unsure'')])\<close>
    by (simp add: example_eval)
  from attempt_success_criterion [of ?e emptyWorld _ exampleProposal] h b
  have \<open>getNaniVote ?e exampleProposal emptyWorld =
     (Inr (JObj [(''reason'', JStr ''unsure'')]),
      emptyWorld\<lparr>requests := requests emptyWorld @
        [systemContent [] (p_content exampleProposal),
         systemContent secondInstruction (p_content exampleProposal)]\<rparr>)\<close>
    by blast
  then show \<open>getNaniVote ?e exampleProposal emptyWorld =
     (Inr (JObj [(''reason'', JStr ''unsure'')]),
      emptyWorld\<lparr>requests :=
        [systemContent [] (p_content exampleProposal),
         systemContent secondInstruction (p_content exampleProposal)]\<rparr>)\<close>
    by (simp add: emptyWorld_def)
next
  let ?e = \<open>exampleEnv\<lparr>fetchText := replies [''null'', ''I approve this proposal.'',
        ''{"reason":"unsure"}'']\<rparr>\<close>
  have h: \<open>fetchText ?e (length (requests emptyWorld))
        (systemContent [] (p_content exampleProposal)) = Inr ''null'' \<and>
      \<not> (\<exists>j. JSON_parse ?e ''null'' = Some j \<and> truthy j) \<and>
      fetchText ?e (length (requests emptyWorld) + 1)
        (systemContent secondInstruction (p_content exampleProposal)) =
        Inr ''I approve this proposal.'' \<and>
      \<not> (\<exists>j. JSON_parse ?e ''I approve this proposal.'' = Some j \<and> truthy j) \<and>
      fetchText ?e (length (requests emptyWorld) + 2)
        (systemContent finalInstruction (p_content exampleProposal)) =
        Inr ''{"reason":"unsure"}''\<close>
    by (simp add: example_eval)
  have b: \<open>JSON_parse ?e ''{"reason":"unsure"}'' =
      Some (JObj [(''reason'', JStr ''unsure'')]) \<and>
      truthy (JObj [(''reason'', JStr ''unsure'')])\<close>
    by (simp add: example_eval)
  from attempt_success_criterion [of ?e emptyWorld _ exampleProposal] h b
  have \<open>getNaniVote ?e exampleProposal emptyWorld =
     (Inr (JObj [(''reason'', JStr ''unsure'')]),
      emptyWorld\<lparr>requests := requests emptyWorld @
        [systemContent [] (p_content exampleProposal),
         systemContent secondInstruction (p_content exampleProposal),
         systemContent finalInstruction (p_content exampleProposal)]\<rparr>)\<close>
    by blast
  then show \<open>getNaniVote ?e exampleProposal emptyWorld =
     (Inr (JObj [(''reason'', JStr ''unsure'')]),
      emptyWorld\<lparr>requests :=
        [systemContent [] (p_content exampleProposal),
         systemContent secondInstruction (p_content exampleProposal),
         systemContent finalInstruction (p_content exampleProposal)]\<rparr>)\<close>
    by (simp add: emptyWorld_def)
qed

text \<open>The claim as stated fails: the bodies \<^verbatim>\<open>null\<close>, \<^verbatim>\<open>0\<close> and \<^verbatim>\<open>false\<close> all parse as
  JSON, and three such responses end in the format error.\<close>

theorem attempt_falsy_counterexample:
  \<open>JSON_parse exampleEnv ''null'' = Some JNull \<and>
   JSON_parse exampleEnv ''0'' = Some (JNum 0) \<and>
   JSON_parse exampleEnv ''false'' = Some (JBool False) \<and>
   getNaniVote (exampleEnv\<lparr>fetchText := replies [''null'', ''0'', ''false'']\<rparr>)
     exampleProposal emptyWorld =
     (Inl (Error ''Failed to get valid JSON response after 3 attempts''),
      emptyWorld\<lparr>requests :=
        [systemContent [] (p_content exampleProposal),
         systemContent secondInstruction (p_content exampleProposal),
         systemContent finalInstruction (p_content exampleProposal)]\<rparr>)\<close>
  by (simp add: getNaniVote_def makeRequest_eq example_eval)

subsection \<open>Retrieval\<close>

lemma getRecentProposals_3:
  "getRecentProposals e 3 w =
     (case selectProposals e (queries w) of
        Inr rows \<Rightarrow> (Inr (Some rows), w\<lparr>queries := queries w + 1\<rparr>)
      | Inl e1 \<Rightarrow>
          (case selectProposals e (queries w + 1) of
             Inr rows \<Rightarrow>
               (Inr (Some rows),
                w\<lparr>queries := queries w + 2, sleeps := sleeps w @ [1000]\<rparr>)
           | Inl e2 \<Rightarrow>
               (case selectProposals e (queries w + 2) of
                  Inr rows \<Rightarrow>
                    (Inr (Some rows),
                     w\<lparr>queries := queries w + 3, sleeps := sleeps w @ [1000, 2000]\<rparr>)
                | Inl e3 \<Rightarrow>
                    (Inl e3,
                     w\<lparr>queries := queries w + 3, sleeps := sleeps w @ [1000, 2000]\<rparr>))))"
  unfolding getRecentProposals_def
  apply (subst getRecentProposals_loop.simps)
  apply (subst getRecentProposals_loop.simps)
  apply (subst getRecentProposals_loop.simps)
  apply (simp add: Let_def split: sum.splits)
  done

text \<open>
  Claim C9, as amended. \<open>getRecentProposals\<close> makes at most three attempts in all. It
  waits 1000 ms after a first failure and 2000 ms after a second one; a third failure is
  rethrown at once, with no third wait, and \<open>vote\<close> then answers with status 500 and
  processes no proposal.
\<close>

theorem getRecentProposals_backoff:
  "getRecentProposals e 3 w =
     (case selectProposals e (queries w) of
        Inr rows \<Rightarrow> (Inr (Some rows), w\<lparr>queries := queries w + 1\<rparr>)
      | Inl e1 \<Rightarrow>
          (case selectProposals e (queries w + 1) of
             Inr rows \<Rightarrow>
               (Inr (Some rows),
                w\<lparr>queries := queries w + 2, sleeps := sleeps w @ [1000]\<rparr>)
           | Inl e2 \<Rightarrow>
               (case selectProposals e (queries w + 2) of
                  Inr rows \<Rightarrow>
                    (Inr (Some rows),
                     w\<lparr>queries := queries w + 3, sleeps := sleeps w @ [1000, 2000]\<rparr>)
                | Inl e3 \<Rightarrow>
                    (Inl e3,
                     w\<lparr>queries := queries w + 3, sleeps := sleeps w @ [1000, 2000]\<rparr>)))) \<and>
   (\<forall>e1 e2 e3.
      selectProposals e (queries w) = Inl e1 \<and>
      selectProposals e (queries w + 1) = Inl e2 \<and>
      selectProposals e (queries w + 2) = Inl e3 \<longrightarrow>
      vote e w =
        (Status500 (message e3),
         w\<lparr>queries := queries w + 3, sleeps := sleeps w @ [1000, 2000]\<rparr>))"
proof
  show "getRecentProposals e 3 w =
     (case selectProposals e (queries w) of
        Inr rows \<Rightarrow> (Inr (Some rows), w\<lparr>queries := queries w + 1\<rparr>)
      | Inl e1 \<Rightarrow>
          (case selectProposals e (queries w + 1) of
             Inr rows \<Rightarrow>
               (Inr (Some rows),
                w\<lparr>queries := queries w + 2, sleeps := sleeps w @ [1000]\<rparr>)
           | Inl e2 \<Rightarrow>
               (case selectProposals e (queries w + 2) of
                  Inr rows \<Rightarrow>
                    (Inr (Some rows),
                     w\<lparr>queries := queries w + 3, sleeps := sleeps w @ [1000, 2000]\<rparr>)
                | Inl e3 \<Rightarrow>
                    (Inl e3,
                     w\<lparr>queries := queries w + 3, sleeps := sleeps w @ [1000, 2000]\<rparr>))))"
    by (rule getRecentProposals_3)
  show "\<forall>e1 e2 e3.
      selectProposals e (queries w) = Inl e1 \<and>
      selectProposals e (queries w + 1) = Inl e2 \<and>
      selectProposals e (queries w + 2) = Inl e3 \<longrightarrow>
      vote e w =
        (Status500 (message e3),
         w\<lparr>queries := queries w + 3, sleeps := sleeps w @ [1000, 2000]\<rparr>)"
    by (simp add: vote_def getRecentProposals_3)
qed

theorem getRecentProposals_backoff_witness:
  "vote (exampleEnv\<lparr>selectProposals := (\<lambda>k. Inl (Error ''Connection terminated''))\<rparr>)
     emptyWorld =
     (Status500 ''Connection terminated'',
      emptyWorld\<lparr>queries := 3, sleeps := [1000, 2000]\<rparr>) \<and>
   getRecentProposals
     (exampleEnv\<lparr>selectProposals :=
        (\<lambda>k. if k = 0 then Inl (Error ''Connection terminated'')
              else Inr [exampleProposal])\<rparr>) 3 emptyWorld =
     (Inr (Some [exampleProposal]), emptyWorld\<lparr>queries := 2, sleeps := [1000]\<rparr>)"
  using getRecentProposals_backoff
      [of "exampleEnv\<lparr>selectProposals := (\<lambda>k. Inl (Error ''Connection terminated''))\<rparr>"
        emptyWorld]
    getRecentProposals_backoff
      [of "exampleEnv\<lparr>selectProposals :=
        (\<lambda>k. if k = 0 then Inl (Error ''Connection terminated'')
              else Inr [exampleProposal])\<rparr>" emptyWorld]
  by (simp add: emptyWorld_def)

text \<open>The claim as stated fails: when every attempt fails there are three queries and
  the waits are 1000 ms and 2000 ms only.\<close>

theorem getRecentProposals_delays_counterexample:
  "queries (snd (getRecentProposals
     (exampleEnv\<lparr>selectProposals := (\<lambda>k. Inl (Error ''Connection terminated''))\<rparr>)
     3 emptyWorld)) = 3 \<and>
   sleeps (snd (getRecentProposals
     (exampleEnv\<lparr>selectProposals := (\<lambda>k. Inl (Error ''Connection terminated''))\<rparr>)
     3 emptyWorld)) = [1000, 2000]"
  by (simp add: getRecentProposals_3 emptyWorld_def)

subsection \<open>The outcome store\<close>

lemma atMostOnce_snoc:
  "atMostOnce (t @ [r]) \<longleftrightarrow>
     atMostOnce t \<and> \<not> list_ex (\<lambda>r'. row_signer r' = row_signer r \<and> row_hash r' = row_hash r) t"
  by (auto simp: atMostOnce_def list_ex_iff image_iff)

lemma addSignature_unique:
  assumes "insertRow e = uniqueInsert" and "atMostOnce (signatures w)"
  shows "atMostOnce (signatures (snd (addSignature e s w)))"
    and "list_ex (\<lambda>r'. row_signer r' = toLowerCase (sig_signer s) \<and>
            row_hash r' = toLowerCase (sig_hash s)) (signatures w) \<Longrightarrow>
         addSignature e s w =
           (Inl (Error ''duplicate key value violates unique constraint''), w)"
  using assms
  by (auto simp: addSignature_def uniqueInsert_def atMostOnce_snoc sigValues_def Let_def)

text \<open>
  Claim C2, as amended. \<open>addSignature\<close> issues an unconditional INSERT of the
  lower-cased values: when the database accepts the row it is appended to the table, and
  when the database refuses it the error is rethrown and the table is unchanged. Nothing
  in \<open>addSignature\<close> itself keeps a (signer, hash) pair unique. If the table carries the
  uniqueness constraint on (signer, hash), the table keeps at most one row per pair, and
  a call for a pair that is already stored raises and stores nothing.
\<close>

theorem addSignature_insert:
  "(insertRow e (signatures w) (sigValues s) = None \<longrightarrow>
      addSignature e s w =
        (Inr (sigValues s), w\<lparr>signatures := signatures w @ [sigValues s]\<rparr>)) \<and>
   (\<forall>err. insertRow e (signatures w) (sigValues s) = Some err \<longrightarrow>
      addSignature e s w = (Inl err, w)) \<and>
   (insertRow e = uniqueInsert \<and> atMostOnce (signatures w) \<longrightarrow>
      atMostOnce (signatures (snd (addSignature e s w))) \<and>
      (list_ex (\<lambda>r'. row_signer r' = toLowerCase (sig_signer s) \<and>
                 row_hash r' = toLowerCase (sig_hash s)) (signatures w) \<longrightarrow>
       addSignature e s w =
         (Inl (Error ''duplicate key value violates unique constraint''), w)))"
  using addSignature_unique [of e w s]
  by (auto simp: addSignature_def Let_def)

lemma sigValues_exampleSig: "sigValues exampleSig = exampleRow"
  by (simp add: sigValues_def exampleSig_def exampleRow_def toLowerCase_def lowerChar_def)

theorem addSignature_insert_witness:
  "addSignature (exampleEnv\<lparr>insertRow := uniqueInsert\<rparr>) exampleSig emptyWorld =
     (Inr exampleRow, emptyWorld\<lparr>signatures := [exampleRow]\<rparr>) \<and>
   addSignature (exampleEnv\<lparr>insertRow := uniqueInsert\<rparr>) exampleSig
     (emptyWorld\<lparr>signatures := [exampleRow]\<rparr>) =
     (Inl (Error ''duplicate key value violates unique constraint''),
      emptyWorld\<lparr>signatures := [exampleRow]\<rparr>)"
proof
  let ?e = "exampleEnv\<lparr>insertRow := uniqueInsert\<rparr>"
  have "insertRow ?e (signatures emptyWorld) (sigValues exampleSig) = None"
    by (simp add: uniqueInsert_def emptyWorld_def)
  then show "addSignature ?e exampleSig emptyWorld =
      (Inr exampleRow, emptyWorld\<lparr>signatures := [exampleRow]\<rparr>)"
    using addSignature_insert [of ?e emptyWorld exampleSig]
    by (simp add: sigValues_exampleSig emptyWorld_def)
  let ?w = "emptyWorld\<lparr>signatures := [exampleRow]\<rparr>"
  have "insertRow ?e = uniqueInsert" "atMostOnce (signatures ?w)"
    "list_ex (\<lambda>r'. row_signer r' = toLowerCase (sig_signer exampleSig) \<and>
        row_hash r' = toLowerCase (sig_hash exampleSig)) (signatures ?w)"
    by (simp_all add: atMostOnce_def exampleRow_def exampleSig_def toLowerCase_def
        lowerChar_def)
  then show "addSignature ?e exampleSig ?w =
      (Inl (Error ''duplicate key value violates unique constraint''), ?w)"
    using addSignature_insert [of ?e ?w exampleSig]
    by blast
qed

text \<open>The claim as stated fails: a second call for the same pair is not a no-op. On a
  table without the constraint it stores a second row; on a table with the constraint
  it throws.\<close>

theorem addSignature_duplicate_counterexample:
  "addSignature exampleEnv exampleSig emptyWorld =
     (Inr exampleRow, emptyWorld\<lparr>signatures := [exampleRow]\<rparr>) \<and>
   addSignature exampleEnv exampleSig (emptyWorld\<lparr>signatures := [exampleRow]\<rparr>) =
     (Inr exampleRow, emptyWorld\<lparr>signatures := [exampleRow, exampleRow]\<rparr>) \<and>
   \<not> atMostOnce [exampleRow, exampleRow] \<and>
   addSignature (exampleEnv\<lparr>insertRow := uniqueInsert\<rparr>) exampleSig
     (emptyWorld\<lparr>signatures := [exampleRow]\<rparr>) =
     (Inl (Error ''duplicate key value violates unique constraint''),
      emptyWorld\<lparr>signatures := [exampleRow]\<rparr>)"
  by (simp add: addSignature_def sigValues_exampleSig exampleEnv_def emptyWorld_def
      atMostOnce_def uniqueInsert_def)

subsection \<open>The loop over the proposals\<close>

lemma getNaniVote_frame:
  "signatures (snd (getNaniVote e p w)) = signatures w"
  "signings (snd (getNaniVote e p w)) = signings w"
  "reads (snd (getNaniVote e p w)) = reads w"
proof -
  obtain k where "snd (getNaniVote e p w) =
       w\<lparr>requests := requests w @
          take k [systemContent [] (p_content p),
                  systemContent secondInstruction (p_content p),
                  systemContent finalInstruction (p_content p)]\<rparr>"
    using getNaniVote_requests [of e p w] by blast
  then show "signatures (snd (getNaniVote e p w)) = signatures w"
    "signings (snd (getNaniVote e p w)) = signings w"
    "reads (snd (getNaniVote e p w)) = reads w"
    by simp_all
qed

lemma getNaniVote_truthy: "getNaniVote e p w = (Inr d, w1) \<Longrightarrow> truthy d"
  by (auto simp: getNaniVote_def makeRequest_eq split: sum.splits if_splits)

lemma destructure_truthy:
  "truthy d \<Longrightarrow>
   destructure d =
     Inr ((case d of JObj kvs \<Rightarrow> map_of kvs ''vote'' | _ \<Rightarrow> None),
          (case d of JObj kvs \<Rightarrow> map_of kvs ''reason'' | _ \<Rightarrow> None))"
  by (cases d) (simp_all add: destructure_def)

lemma getDomain_frame:
  "signatures (snd (getDomain e s c w)) = signatures w"
  "signings (snd (getDomain e s c w)) = signings w"
  by (simp_all add: getDomain_def Let_def split: sum.splits prod.splits)

lemma signProposal_frame:
  "signatures (snd (signProposal e acct p w)) = signatures w"
proof -
  obtain r w1 where g: "getDomain e (sender (toUserOperation p)) (p_chain p) w = (r, w1)"
    by (cases "getDomain e (sender (toUserOperation p)) (p_chain p) w")
  then have "signatures w1 = signatures w"
    using getDomain_frame(1) [of e "sender (toUserOperation p)" "p_chain p" w] by simp
  with g show ?thesis
    by (simp add: signProposal_def Let_def split: sum.splits prod.splits)
qed

lemma addSignature_cases:
  "(\<exists>err. addSignature e s w = (Inl err, w)) \<or>
   addSignature e s w = (Inr (sigValues s), w\<lparr>signatures := signatures w @ [sigValues s]\<rparr>)"
  by (simp add: addSignature_def Let_def split: option.splits)

lemma processProposal_Inr:
  assumes "processProposal e acct p w = (Inr r, w')"
  shows "res_hash r = p_userOpHash p \<and> status r \<noteq> ''error'' \<and>
     (\<exists>new. signatures w' = signatures w @ [new] \<and>
        [(row_hash new, row_signature new)] = recorded r)"
proof -
  obtain x w1 where n: "getNaniVote e p w = (x, w1)"
    by (cases "getNaniVote e p w")
  with assms obtain d where d: "x = Inr d"
    by (cases x) (simp_all add: processProposal_def)
  have s1: "signatures w1 = signatures w"
    using getNaniVote_frame(1) [of e p w] n by simp
  from n d have "truthy d"
    by (simp add: getNaniVote_truthy)
  note ds = destructure_truthy [OF this]
  let ?v = "case d of JObj kvs \<Rightarrow> map_of kvs ''vote'' | _ \<Rightarrow> None"
  let ?r = "case d of JObj kvs \<Rightarrow> map_of kvs ''reason'' | _ \<Rightarrow> None"
  show ?thesis
  proof (cases "Boolean ?v")
    case True
    obtain y w2 where sp: "signProposal e acct p w1 = (y, w2)"
      by (cases "signProposal e acct p w1")
    have s2: "signatures w2 = signatures w1"
      using signProposal_frame [of e acct p w1] sp by simp
    from assms n d ds True sp obtain sg where y: "y = Inr sg"
      by (cases y) (simp_all add: processProposal_def)
    let ?s = "\<lparr>sig_signer = acct_address acct, sig_account = p_sender p,
               sig_hash = p_userOpHash p, sig_signature = sg, sig_reason = ?r\<rparr>"
    from addSignature_cases [of e ?s w2] assms n d ds True sp y s1 s2 show ?thesis
      by (auto simp: processProposal_def recorded_def sigValues_def)
  next
    case False
    let ?s = "\<lparr>sig_signer = acct_address acct, sig_account = p_sender p,
               sig_hash = p_userOpHash p, sig_signature = [], sig_reason = ?r\<rparr>"
    from addSignature_cases [of e ?s w1] assms n d ds False s1 show ?thesis
      by (auto simp: processProposal_def recorded_def sigValues_def)
  qed
qed

lemma processProposal_Inl:
  assumes "processProposal e acct p w = (Inl err, w')"
  shows "signatures w' = signatures w"
proof -
  obtain x w1 where n: "getNaniVote e p w = (x, w1)"
    by (cases "getNaniVote e p w")
  have s1: "signatures w1 = signatures w"
    using getNaniVote_frame(1) [of e p w] n by simp
  show ?thesis
  proof (cases x)
    case (Inl a)
    with assms n s1 show ?thesis
      by (simp add: processProposal_def)
  next
    case (Inr d)
    with n have "truthy d"
      by (simp add: getNaniVote_truthy)
    note ds = destructure_truthy [OF this]
    let ?v = "case d of JObj kvs \<Rightarrow> map_of kvs ''vote'' | _ \<Rightarrow> None"
    let ?r = "case d of JObj kvs \<Rightarrow> map_of kvs ''reason'' | _ \<Rightarrow> None"
    show ?thesis
    proof (cases "Boolean ?v")
      case True
      obtain y w2 where sp: "signProposal e acct p w1 = (y, w2)"
        by (cases "signProposal e acct p w1")
      have s2: "signatures w2 = signatures w1"
        using signProposal_frame [of e acct p w1] sp by simp
      show ?thesis
      proof (cases y)
        case (Inl a)
        with assms n Inr ds True sp s1 s2 show ?thesis
          by (simp add: processProposal_def)
      next
        case sg: (Inr sg)
        let ?s = "\<lparr>sig_signer = acct_address acct, sig_account = p_sender p,
               sig_hash = p_userOpHash p, sig_signature = sg, sig_reason = ?r\<rparr>"
        from addSignature_cases [of e ?s w2] assms n Inr ds True sp sg s1 s2 show ?thesis
          by (auto simp: processProposal_def)
      qed
    next
      case False
      let ?s = "\<lparr>sig_signer = acct_address acct, sig_account = p_sender p,
               sig_hash = p_userOpHash p, sig_signature = [], sig_reason = ?r\<rparr>"
      from addSignature_cases [of e ?s w1] assms n Inr ds False s1 show ?thesis
        by (auto simp: processProposal_def)
    qed
  qed
qed

lemma recorded_errorResult [simp]:
  "recorded (errorResult p err) = []" "res_hash (errorResult p err) = p_userOpHash p"
  by (simp_all add: recorded_def errorResult_def)

lemma processProposals_outcomes_aux:
  "\<exists>news new.
     fst (processProposals e acct ps rs w) = rs @ news \<and>
     map res_hash news = map p_userOpHash ps \<and>
     signatures (snd (processProposals e acct ps rs w)) = signatures w @ new \<and>
     map (\<lambda>r. (row_hash r, row_signature r)) new = concat (map recorded news)"
proof (induction ps arbitrary: rs w)
  case Nil
  then show ?case by simp
next
  case (Cons p ps)
  obtain x w1 where pp: "processProposal e acct p w = (x, w1)"
    by (cases "processProposal e acct p w")
  show ?case
  proof (cases x)
    case (Inl err)
    from processProposal_Inl pp Inl have s: "signatures w1 = signatures w"
      by blast
    from Cons.IH [of "rs @ [errorResult p err]" w1] obtain news new where
      "fst (processProposals e acct ps (rs @ [errorResult p err]) w1) =
         (rs @ [errorResult p err]) @ news"
      "map res_hash news = map p_userOpHash ps"
      "signatures (snd (processProposals e acct ps (rs @ [errorResult p err]) w1)) =
         signatures w1 @ new"
      "map (\<lambda>r. (row_hash r, row_signature r)) new = concat (map recorded news)"
      by blast
    with pp Inl s show ?thesis
      by (intro exI [of _ "errorResult p err # news"] exI [of _ new]) simp
  next
    case (Inr r)
    from processProposal_Inr pp Inr obtain row where
      r: "res_hash r = p_userOpHash p" "signatures w1 = signatures w @ [row]"
        "[(row_hash row, row_signature row)] = recorded r"
      by blast
    from Cons.IH [of "rs @ [r]" w1] obtain news new where
      "fst (processProposals e acct ps (rs @ [r]) w1) = (rs @ [r]) @ news"
      "map res_hash news = map p_userOpHash ps"
      "signatures (snd (processProposals e acct ps (rs @ [r]) w1)) = signatures w1 @ new"
      "map (\<lambda>r. (row_hash r, row_signature r)) new = concat (map recorded news)"
      by blast
    with pp Inr r show ?thesis
      by (intro exI [of _ "r # news"] exI [of _ "row # new"]) simp
  qed
qed

lemma bitLength_le: "n < 2 ^ k \<Longrightarrow> bitLength n \<le> k"
proof (induction k arbitrary: n)
  case 0
  then show ?case by (subst bitLength.simps) simp
next
  case (Suc k)
  show ?case
  proof (cases "n = 0")
    case True
    then show ?thesis by (subst bitLength.simps) simp
  next
    case False
    from Suc.prems have "n div 2 < 2 ^ k"
      by (simp add: less_mult_imp_div_less mult.commute)
    from Suc.IH [OF this] False show ?thesis
      by (subst bitLength.simps) simp
  qed
qed

lemma Number_small: "\<bar>v\<bar> < 2 ^ 53 \<Longrightarrow> Number v = v"
proof -
  assume "\<bar>v\<bar> < 2 ^ 53"
  then have "nat \<bar>v\<bar> < 2 ^ 53"
    by (simp add: nat_less_iff)
  then have "bitLength (nat \<bar>v\<bar>) \<le> 53"
    by (rule bitLength_le)
  then show ?thesis
    by (simp add: Number_def Let_def)
qed

lemmas sign_eval = signProposal_def getDomain_def resolveChain_def toLowerCase_def
  lowerChar_def toUserOperation_def overrideDomain_def zeroKey_def getValidator_def
  validatorApps_def exampleKeyFromNonce_def exampleValidatorKey_def
  remoteValidatorDomain_def publicClient_def Number_small

lemmas vote_eval = vote_def getRecentProposals_3 processProposal_def getNaniVote_def
  makeRequest_eq destructure_def Boolean_def addSignature_def sigValues_def
  errorResult_def Let_def

text \<open>
  Claim C4, as amended. The loop appends exactly one entry to the summary for every
  proposal, in order, whichever branch is taken, and always runs to the end of the list.
  A row is written to the store for the entries of status \<^verbatim>\<open>"success"\<close> (with the
  signature) and \<^verbatim>\<open>"rejected"\<close> (with the empty signature) and for no others: an exception
  raised while a proposal is processed is caught, reported in the summary as that
  proposal's \<^verbatim>\<open>"error"\<close> entry with the exception's message, writes no row, and the
  remaining proposals are processed.
\<close>

theorem processProposals_outcomes:
  "(\<exists>news new.
      fst (processProposals e acct ps rs w) = rs @ news \<and>
      map res_hash news = map p_userOpHash ps \<and>
      signatures (snd (processProposals e acct ps rs w)) = signatures w @ new \<and>
      map (\<lambda>r. (row_hash r, row_signature r)) new = concat (map recorded news)) \<and>
   (\<forall>err w'.
      processProposal e acct p w = (Inl err, w') \<longrightarrow>
      signatures w' = signatures w \<and>
      (\<exists>r. res_hash r = p_userOpHash p \<and> status r = ''error'' \<and>
         res_error r = Some (message err) \<and>
         processProposals e acct (p # ps) rs w =
           processProposals e acct ps (rs @ [r]) w')) \<and>
   (\<forall>proposals account.
      selectProposals e (queries w) = Inr proposals \<and> toGcpAccount e = Inr account \<longrightarrow>
      (\<exists>results.
         fst (vote e w) = Status200 (length proposals) results \<and>
         map res_hash results = map p_userOpHash proposals))"
proof (intro conjI allI impI)
  show "\<exists>news new.
      fst (processProposals e acct ps rs w) = rs @ news \<and>
      map res_hash news = map p_userOpHash ps \<and>
      signatures (snd (processProposals e acct ps rs w)) = signatures w @ new \<and>
      map (\<lambda>r. (row_hash r, row_signature r)) new = concat (map recorded news)"
    by (rule processProposals_outcomes_aux)
next
  fix err w'
  assume "processProposal e acct p w = (Inl err, w')"
  then show "signatures w' = signatures w"
    by (rule processProposal_Inl)
next
  fix err w'
  assume "processProposal e acct p w = (Inl err, w')"
  then show "\<exists>r. res_hash r = p_userOpHash p \<and> status r = ''error'' \<and>
         res_error r = Some (message err) \<and>
         processProposals e acct (p # ps) rs w =
           processProposals e acct ps (rs @ [r]) w'"
    by (intro exI [of _ "errorResult p err"]) (simp add: errorResult_def)
next
  fix proposals account
  assume a: "selectProposals e (queries w) = Inr proposals \<and> toGcpAccount e = Inr account"
  let ?w1 = "w\<lparr>queries := queries w + 1\<rparr>"
  obtain news where
    "fst (processProposals e account proposals [] ?w1) = [] @ news"
    "map res_hash news = map p_userOpHash proposals"
    using processProposals_outcomes_aux [of e account proposals "[]" ?w1] by blast
  with a show "\<exists>results.
         fst (vote e w) = Status200 (length proposals) results \<and>
         map res_hash results = map p_userOpHash proposals"
    by (auto simp: vote_def getRecentProposals_3 split: prod.splits)
qed

lemmas example_eval2 = example_eval twoProposals_def exampleDomain_def exampleMessage_def
  exampleRow_def remoteNonce_def

theorem processProposals_outcomes_witness:
  \<open>(\<exists>results.
      fst (vote (exampleEnv\<lparr>fetchText := replies [''I approve this proposal.'',
             ''I approve this proposal.'', ''I approve this proposal.'',
             ''{"vote":true,"reason":"ok"}''],
           selectProposals := (\<lambda>k. Inr twoProposals)\<rparr>) emptyWorld) =
        Status200 2 results \<and>
      map res_hash results = [''0xAA'', ''0xAB12'']) \<and>
   vote (exampleEnv\<lparr>fetchText := replies [''I approve this proposal.'',
             ''I approve this proposal.'', ''I approve this proposal.'',
             ''{"vote":true,"reason":"ok"}''],
           selectProposals := (\<lambda>k. Inr twoProposals)\<rparr>) emptyWorld =
     (Status200 2
        [\<lparr>res_hash = ''0xAA'', status = ''error'', res_signature = None, res_vote = None,
          res_reason = None,
          res_error = Some ''Failed to get valid JSON response after 3 attempts''\<rparr>,
         \<lparr>res_hash = ''0xAB12'', status = ''success'', res_signature = Some ''0x5157'',
          res_vote = Some (JBool True), res_reason = Some (JStr ''ok''),
          res_error = None\<rparr>],
      \<lparr>signatures = [exampleRow],
       requests =
         [systemContent [] (p_content exampleProposal),
          systemContent secondInstruction (p_content exampleProposal),
          systemContent finalInstruction (p_content exampleProposal),
          systemContent [] (p_content exampleProposal)],
       sleeps = [], queries = 1,
       reads = [(base, ''0x0000000000001d8a2e7bf6bc369525a2654aa298'')],
       signings = [(exampleDomain, exampleMessage)]\<rparr>)\<close>
proof
  let ?e = \<open>exampleEnv\<lparr>fetchText := replies [''I approve this proposal.'',
             ''I approve this proposal.'', ''I approve this proposal.'',
             ''{"vote":true,"reason":"ok"}''],
           selectProposals := (\<lambda>k. Inr twoProposals)\<rparr>\<close>
  have "selectProposals ?e (queries emptyWorld) = Inr twoProposals \<and>
      toGcpAccount ?e = Inr exampleAccount"
    by (simp add: exampleEnv_def)
  then have "\<exists>results. fst (vote ?e emptyWorld) = Status200 (length twoProposals) results \<and>
      map res_hash results = map p_userOpHash twoProposals"
    using processProposals_outcomes [of ?e _ _ _ emptyWorld] by blast
  moreover have "length twoProposals = 2"
    "map p_userOpHash twoProposals = [''0xAA'', ''0xAB12'']"
    by (simp_all add: twoProposals_def exampleProposal_def)
  ultimately show "\<exists>results. fst (vote ?e emptyWorld) = Status200 2 results \<and>
      map res_hash results = [''0xAA'', ''0xAB12'']"
    by (simp only:)
  show \<open>vote ?e emptyWorld =
     (Status200 2
        [\<lparr>res_hash = ''0xAA'', status = ''error'', res_signature = None, res_vote = None,
          res_reason = None,
          res_error = Some ''Failed to get valid JSON response after 3 attempts''\<rparr>,
         \<lparr>res_hash = ''0xAB12'', status = ''success'', res_signature = Some ''0x5157'',
          res_vote = Some (JBool True), res_reason = Some (JStr ''ok''),
          res_error = None\<rparr>],
      \<lparr>signatures = [exampleRow],
       requests =
         [systemContent [] (p_content exampleProposal),
          systemContent secondInstruction (p_content exampleProposal),
          systemContent finalInstruction (p_content exampleProposal),
          systemContent [] (p_content exampleProposal)],
       sleeps = [], queries = 1,
       reads = [(base, ''0x0000000000001d8a2e7bf6bc369525a2654aa298'')],
       signings = [(exampleDomain, exampleMessage)]\<rparr>)\<close>
    by (simp add: vote_eval sign_eval hex_eval example_eval2)
qed

text \<open>The claim as stated fails: a proposal whose evaluation raises gets its
  \<^verbatim>\<open>"error"\<close> entry in the summary, and the store stays empty.\<close>

theorem exception_not_stored_counterexample:
  \<open>vote (exampleEnv\<lparr>fetchText := replies [''I approve this proposal.'',
       ''I approve this proposal.'', ''I approve this proposal.'']\<rparr>) emptyWorld =
     (Status200 1
        [\<lparr>res_hash = ''0xAB12'', status = ''error'', res_signature = None,
          res_vote = None, res_reason = None,
          res_error = Some ''Failed to get valid JSON response after 3 attempts''\<rparr>],
      emptyWorld\<lparr>requests :=
          [systemContent [] (p_content exampleProposal),
           systemContent secondInstruction (p_content exampleProposal),
           systemContent finalInstruction (p_content exampleProposal)],
        queries := 1\<rparr>) \<and>
   signatures (snd (vote (exampleEnv\<lparr>fetchText := replies [''I approve this proposal.'',
       ''I approve this proposal.'', ''I approve this proposal.'']\<rparr>) emptyWorld)) = []\<close>
  by (simp add: vote_eval sign_eval hex_eval example_eval2)

subsection \<open>The decision\<close>

lemma addSignature_frame:
  "signings (snd (addSignature e s w)) = signings w"
  "reads (snd (addSignature e s w)) = reads w"
  using addSignature_cases [of e s w] by auto

text \<open>
  Claim C10. Approval is decided by \<^verbatim>\<open>Boolean(vote)\<close> on the \<^verbatim>\<open>vote\<close> property of the
  parsed decision. When it is truthy (any non-empty string, \<^verbatim>\<open>"false"\<close> included) the
  proposal is signed and the signature stored; when the property is absent or falsy the
  row is stored with the empty signature, nothing is signed and no contract is read.
\<close>

theorem processProposal_branch:
  assumes "getNaniVote e p w = (Inr d, w1)"
  shows
    "(Boolean (case d of JObj kvs \<Rightarrow> map_of kvs ''vote'' | _ \<Rightarrow> None) \<longrightarrow>
        processProposal e acct p w =
          (case signProposal e acct p w1 of
             (Inl err, w2) \<Rightarrow> (Inl err, w2)
           | (Inr sg, w2) \<Rightarrow>
               (case addSignature e
                       \<lparr>sig_signer = acct_address acct, sig_account = p_sender p,
                        sig_hash = p_userOpHash p, sig_signature = sg,
                        sig_reason =
                          (case d of JObj kvs \<Rightarrow> map_of kvs ''reason'' | _ \<Rightarrow> None)\<rparr>
                       w2 of
                  (Inl err, w3) \<Rightarrow> (Inl err, w3)
                | (Inr stored, w3) \<Rightarrow>
                    (Inr \<lparr>res_hash = p_userOpHash p, status = ''success'',
                         res_signature = Some sg,
                         res_vote =
                           (case d of JObj kvs \<Rightarrow> map_of kvs ''vote'' | _ \<Rightarrow> None),
                         res_reason =
                           (case d of JObj kvs \<Rightarrow> map_of kvs ''reason'' | _ \<Rightarrow> None),
                         res_error = None\<rparr>, w3)))) \<and>
     (\<not> Boolean (case d of JObj kvs \<Rightarrow> map_of kvs ''vote'' | _ \<Rightarrow> None) \<longrightarrow>
        processProposal e acct p w =
          (case addSignature e
                  \<lparr>sig_signer = acct_address acct, sig_account = p_sender p,
                   sig_hash = p_userOpHash p, sig_signature = [],
                   sig_reason =
                     (case d of JObj kvs \<Rightarrow> map_of kvs ''reason'' | _ \<Rightarrow> None)\<rparr>
                  w1 of
             (Inl err, w2) \<Rightarrow> (Inl err, w2)
           | (Inr stored, w2) \<Rightarrow>
               (Inr \<lparr>res_hash = p_userOpHash p, status = ''rejected'',
                    res_signature = None,
                    res_vote =
                      (case d of JObj kvs \<Rightarrow> map_of kvs ''vote'' | _ \<Rightarrow> None),
                    res_reason =
                      (case d of JObj kvs \<Rightarrow> map_of kvs ''reason'' | _ \<Rightarrow> None),
                    res_error = None\<rparr>, w2)) \<and>
        signings (snd (processProposal e acct p w)) = signings w \<and>
        reads (snd (processProposal e acct p w)) = reads w) \<and>
     (\<forall>s. Boolean (Some (JStr s)) \<longleftrightarrow> s \<noteq> []) \<and> \<not> Boolean None"
proof -
  from assms have "truthy d"
    by (rule getNaniVote_truthy)
  note ds = destructure_truthy [OF this]
  let ?v = "case d of JObj kvs \<Rightarrow> map_of kvs ''vote'' | _ \<Rightarrow> None"
  let ?r = "case d of JObj kvs \<Rightarrow> map_of kvs ''reason'' | _ \<Rightarrow> None"
  let ?s = "\<lparr>sig_signer = acct_address acct, sig_account = p_sender p,
             sig_hash = p_userOpHash p, sig_signature = [], sig_reason = ?r\<rparr>"
  have f: "signings w1 = signings w" "reads w1 = reads w"
    using getNaniVote_frame(2,3) [of e p w] assms by simp_all
  have a: "Boolean ?v \<longrightarrow> processProposal e acct p w =
          (case signProposal e acct p w1 of
             (Inl err, w2) \<Rightarrow> (Inl err, w2)
           | (Inr sg, w2) \<Rightarrow>
               (case addSignature e
                       \<lparr>sig_signer = acct_address acct, sig_account = p_sender p,
                        sig_hash = p_userOpHash p, sig_signature = sg,
                        sig_reason = ?r\<rparr> w2 of
                  (Inl err, w3) \<Rightarrow> (Inl err, w3)
                | (Inr stored, w3) \<Rightarrow>
                    (Inr \<lparr>res_hash = p_userOpHash p, status = ''success'',
                         res_signature = Some sg, res_vote = ?v, res_reason = ?r,
                         res_error = None\<rparr>, w3)))"
    using assms by (simp add: processProposal_def ds)
  have b: "\<not> Boolean ?v \<longrightarrow> processProposal e acct p w =
          (case addSignature e ?s w1 of
             (Inl err, w2) \<Rightarrow> (Inl err, w2)
           | (Inr stored, w2) \<Rightarrow>
               (Inr \<lparr>res_hash = p_userOpHash p, status = ''rejected'',
                    res_signature = None, res_vote = ?v, res_reason = ?r,
                    res_error = None\<rparr>, w2))"
    using assms by (simp add: processProposal_def ds)
  have c: "\<not> Boolean ?v \<longrightarrow>
      signings (snd (processProposal e acct p w)) = signings w \<and>
      reads (snd (processProposal e acct p w)) = reads w"
  proof
    assume n: "\<not> Boolean ?v"
    obtain x w2 where x: "addSignature e ?s w1 = (x, w2)"
      by (cases "addSignature e ?s w1")
    then have "signings w2 = signings w1" "reads w2 = reads w1"
      using addSignature_frame [of e ?s w1] by simp_all
    moreover have "snd (processProposal e acct p w) = w2"
      using b n x by (cases x) simp_all
    ultimately show "signings (snd (processProposal e acct p w)) = signings w \<and>
        reads (snd (processProposal e acct p w)) = reads w"
      using f by simp
  qed
  have t: "(\<forall>s. Boolean (Some (JStr s)) \<longleftrightarrow> s \<noteq> []) \<and> \<not> Boolean None"
    by (simp add: Boolean_def)
  from a b c t show ?thesis
    by blast
qed

theorem processProposal_branch_witness:
  \<open>processProposal
     (exampleEnv\<lparr>fetchText := replies [''{"vote":"false","reason":"no"}'']\<rparr>)
     exampleAccount exampleProposal emptyWorld =
     (Inr \<lparr>res_hash = ''0xAB12'', status = ''success'', res_signature = Some ''0x5157'',
          res_vote = Some (JStr ''false''), res_reason = Some (JStr ''no''),
          res_error = None\<rparr>,
      \<lparr>signatures = [exampleRow\<lparr>row_content := Some (JStr ''no'')\<rparr>],
       requests = [systemContent [] (p_content exampleProposal)],
       sleeps = [], queries = 0,
       reads = [(base, ''0x0000000000001d8a2e7bf6bc369525a2654aa298'')],
       signings = [(exampleDomain, exampleMessage)]\<rparr>) \<and>
   processProposal
     (exampleEnv\<lparr>fetchText := replies [''{"reason":"unsure"}'']\<rparr>)
     exampleAccount exampleProposal emptyWorld =
     (Inr \<lparr>res_hash = ''0xAB12'', status = ''rejected'', res_signature = None,
          res_vote = None, res_reason = Some (JStr ''unsure''), res_error = None\<rparr>,
      \<lparr>signatures =
         [exampleRow\<lparr>row_signature := [], row_content := Some (JStr ''unsure'')\<rparr>],
       requests = [systemContent [] (p_content exampleProposal)],
       sleeps = [], queries = 0, reads = [], signings = []\<rparr>)\<close>
proof
  let ?e = \<open>exampleEnv\<lparr>fetchText := replies [''{"vote":"false","reason":"no"}'']\<rparr>\<close>
  let ?w1 = "emptyWorld\<lparr>requests := [systemContent [] (p_content exampleProposal)]\<rparr>"
  have g: \<open>getNaniVote ?e exampleProposal emptyWorld =
      (Inr (JObj [(''vote'', JStr ''false''), (''reason'', JStr ''no'')]), ?w1)\<close>
    by (simp add: getNaniVote_def makeRequest_eq example_eval)
  have s: "signProposal ?e exampleAccount exampleProposal ?w1 =
      (Inr ''0x5157'',
       ?w1\<lparr>reads := [(base, ''0x0000000000001d8a2e7bf6bc369525a2654aa298'')],
           signings := [(exampleDomain, exampleMessage)]\<rparr>)"
    by (simp add: sign_eval hex_eval example_eval2)
  show \<open>processProposal ?e exampleAccount exampleProposal emptyWorld =
     (Inr \<lparr>res_hash = ''0xAB12'', status = ''success'', res_signature = Some ''0x5157'',
          res_vote = Some (JStr ''false''), res_reason = Some (JStr ''no''),
          res_error = None\<rparr>,
      \<lparr>signatures = [exampleRow\<lparr>row_content := Some (JStr ''no'')\<rparr>],
       requests = [systemContent [] (p_content exampleProposal)],
       sleeps = [], queries = 0,
       reads = [(base, ''0x0000000000001d8a2e7bf6bc369525a2654aa298'')],
       signings = [(exampleDomain, exampleMessage)]\<rparr>)\<close>
    using processProposal_branch [OF g, of exampleAccount] unfolding s
    by (simp add: Boolean_def addSignature_def sigValues_def toLowerCase_def lowerChar_def
        Let_def example_eval2)
next
  let ?e = \<open>exampleEnv\<lparr>fetchText := replies [''{"reason":"unsure"}'']\<rparr>\<close>
  let ?w1 = "emptyWorld\<lparr>requests := [systemContent [] (p_content exampleProposal)]\<rparr>"
  have g: \<open>getNaniVote ?e exampleProposal emptyWorld =
      (Inr (JObj [(''reason'', JStr ''unsure'')]), ?w1)\<close>
    by (simp add: getNaniVote_def makeRequest_eq example_eval)
  show \<open>processProposal ?e exampleAccount exampleProposal emptyWorld =
     (Inr \<lparr>res_hash = ''0xAB12'', status = ''rejected'', res_signature = None,
          res_vote = None, res_reason = Some (JStr ''unsure''), res_error = None\<rparr>,
      \<lparr>signatures =
         [exampleRow\<lparr>row_signature := [], row_content := Some (JStr ''unsure'')\<rparr>],
       requests = [systemContent [] (p_content exampleProposal)],
       sleeps = [], queries = 0, reads = [], signings = []\<rparr>)\<close>
    using processProposal_branch [OF g, of exampleAccount]
    by (simp add: Boolean_def addSignature_def sigValues_def toLowerCase_def lowerChar_def
        Let_def example_eval2)
qed

subsection \<open>The domain override\<close>

lemma getValidator_remote:
  "getValidator ''remote-validator'' = Inr (hd validatorApps)"
  "address (hd validatorApps) = ''0x0000000000159aAFCA7067005E28665a28B5B4cf''"
  by (simp_all add: getValidator_def validatorApps_def)

lemma overrideDomain_cases:
  "overrideDomain e key resolved =
     (if key \<noteq> zeroKey \<and>
         key = getValidatorKey e ''0x0000000000159aAFCA7067005E28665a28B5B4cf''
      then Inl (ReferenceError ''publicClient is not defined'')
      else Inr resolved)"
  by (simp add: overrideDomain_def getValidator_remote remoteValidatorDomain_def
      publicClient_def)

text \<open>
  Claim C1, on the code. With a resolved domain and packed fields: for a nonce whose key
  is not the zero key and equals the key of the remote validator, \<open>signProposal\<close> does not
  sign under the fixed domain; it throws ReferenceError, because \<^verbatim>\<open>publicClient\<close> is not in
  scope where the fixed domain is built, and the signer is never called. For every key
  that differs from the remote validator's key the message is signed under the resolved
  domain, unchanged.
\<close>

theorem signProposal_remote_validator:
  assumes "getDomain e (p_sender p) (p_chain p) w = (Inr resolved, w1)"
    and "packGasLimits (toUserOperation p) = Inr gasFees"
    and "packAccountGasLimits (toUserOperation p) = Inr accountGasLimits"
    and "packPaymasterAndData (toUserOperation p) = Inr paymasterAndData"
  shows
    "(getKeyFromNonce e (p_nonce p) \<noteq> zeroKey \<and>
      getKeyFromNonce e (p_nonce p) =
        getValidatorKey e ''0x0000000000159aAFCA7067005E28665a28B5B4cf'' \<longrightarrow>
        signProposal e acct p w =
          (Inl (ReferenceError ''publicClient is not defined''), w1) \<and>
        signings w1 = signings w) \<and>
     (getKeyFromNonce e (p_nonce p) \<noteq>
        getValidatorKey e ''0x0000000000159aAFCA7067005E28665a28B5B4cf'' \<longrightarrow>
        (\<exists>msg. signProposal e acct p w =
           (signTypedData acct resolved msg,
            w1\<lparr>signings := signings w1 @ [(resolved, msg)]\<rparr>)))"
proof (intro conjI impI)
  have s: "sender (toUserOperation p) = p_sender p" "nonce (toUserOperation p) = p_nonce p"
    by (simp_all add: toUserOperation_def)
  have f: "signings w1 = signings w"
    using getDomain_frame(2) [of e "p_sender p" "p_chain p" w] assms(1) by simp
  {
    assume "getKeyFromNonce e (p_nonce p) \<noteq> zeroKey \<and>
      getKeyFromNonce e (p_nonce p) =
        getValidatorKey e ''0x0000000000159aAFCA7067005E28665a28B5B4cf''"
    then have "overrideDomain e (getKeyFromNonce e (p_nonce p)) resolved =
        Inl (ReferenceError ''publicClient is not defined'')"
      by (subst overrideDomain_cases) (rule if_P)
    with assms show "signProposal e acct p w =
        (Inl (ReferenceError ''publicClient is not defined''), w1)"
      by (simp add: signProposal_def Let_def s)
    show "signings w1 = signings w"
      by (fact f)
  }
  assume "getKeyFromNonce e (p_nonce p) \<noteq>
      getValidatorKey e ''0x0000000000159aAFCA7067005E28665a28B5B4cf''"
  then have o: "overrideDomain e (getKeyFromNonce e (p_nonce p)) resolved = Inr resolved"
    by (simp add: overrideDomain_cases)
  let ?m = "\<lparr>m_sender = p_sender p, m_nonce = p_nonce p,
      m_initCode = packInitCode (toUserOperation p),
      m_callData = callData (toUserOperation p),
      m_accountGasLimits = accountGasLimits,
      m_preVerificationGas = preVerificationGas (toUserOperation p),
      m_gasFees = gasFees, m_paymasterAndData = paymasterAndData,
      m_validUntil = 0, m_validAfter = 0\<rparr>"
  have "signProposal e acct p w =
      (signTypedData acct resolved ?m, w1\<lparr>signings := signings w1 @ [(resolved, ?m)]\<rparr>)"
    using assms by (simp add: signProposal_def Let_def s o)
  then show "\<exists>msg. signProposal e acct p w =
      (signTypedData acct resolved msg, w1\<lparr>signings := signings w1 @ [(resolved, msg)]\<rparr>)"
    by (rule exI)
qed

theorem signProposal_remote_validator_witness:
  "signProposal exampleEnv exampleAccount (exampleProposal\<lparr>p_nonce := remoteNonce\<rparr>)
     emptyWorld =
     (Inl (ReferenceError ''publicClient is not defined''),
      emptyWorld\<lparr>reads := [(base, ''0x0000000000001d8a2e7bf6bc369525a2654aa298'')]\<rparr>) \<and>
   (\<exists>msg. signProposal exampleEnv exampleAccount exampleProposal emptyWorld =
      (Inr ''0x5157'',
       emptyWorld\<lparr>reads := [(base, ''0x0000000000001d8a2e7bf6bc369525a2654aa298'')],
         signings := [(exampleDomain, msg)]\<rparr>))"
proof
  let ?p = "exampleProposal\<lparr>p_nonce := remoteNonce\<rparr>"
  let ?w1 = "emptyWorld\<lparr>reads := [(base, ''0x0000000000001d8a2e7bf6bc369525a2654aa298'')]\<rparr>"
  have d: "getDomain exampleEnv (p_sender ?p) (p_chain ?p) emptyWorld = (Inr exampleDomain, ?w1)"
    "getDomain exampleEnv (p_sender exampleProposal) (p_chain exampleProposal) emptyWorld =
       (Inr exampleDomain, ?w1)"
    by (simp_all add: sign_eval example_eval2)
  have k: "getKeyFromNonce exampleEnv remoteNonce =
      ''0x000000000000000000159aafca7067005e28665a28b5b4cf''"
    "getValidatorKey exampleEnv ''0x0000000000159aAFCA7067005E28665a28B5B4cf'' =
      ''0x000000000000000000159aafca7067005e28665a28b5b4cf''"
    "getKeyFromNonce exampleEnv 7 =
      ''0x000000000000000000000000000000000000000000000000''"
    by (simp_all add: sign_eval hex_eval example_eval2)
  have g: "packGasLimits (toUserOperation ?p) =
      Inr ''0x0000000000000000000000000000000100000000000000000000000000000064''"
    "packAccountGasLimits (toUserOperation ?p) =
      Inr ''0x000000000000000000000000000186a000000000000000000000000000010000''"
    "packPaymasterAndData (toUserOperation ?p) = Inr ''0x''"
    by (simp_all add: toUserOperation_def hex_eval example_eval2)
  have h: "packGasLimits (toUserOperation exampleProposal) =
      Inr ''0x0000000000000000000000000000000100000000000000000000000000000064''"
    "packAccountGasLimits (toUserOperation exampleProposal) =
      Inr ''0x000000000000000000000000000186a000000000000000000000000000010000''"
    "packPaymasterAndData (toUserOperation exampleProposal) = Inr ''0x''"
    by (simp_all add: toUserOperation_def hex_eval example_eval2)
  have c: "getKeyFromNonce exampleEnv (p_nonce ?p) \<noteq> zeroKey \<and>
      getKeyFromNonce exampleEnv (p_nonce ?p) =
        getValidatorKey exampleEnv ''0x0000000000159aAFCA7067005E28665a28B5B4cf''"
    by (simp add: k zeroKey_def)
  from signProposal_remote_validator [OF d(1) g, of exampleAccount] c
  show "signProposal exampleEnv exampleAccount ?p emptyWorld =
      (Inl (ReferenceError ''publicClient is not defined''), ?w1)"
    by blast
  have "getKeyFromNonce exampleEnv (p_nonce exampleProposal) \<noteq>
      getValidatorKey exampleEnv ''0x0000000000159aAFCA7067005E28665a28B5B4cf''"
    by (simp add: k exampleProposal_def)
  with signProposal_remote_validator [OF d(2) h, of exampleAccount]
  have "\<exists>msg. signProposal exampleEnv exampleAccount exampleProposal emptyWorld =
      (signTypedData exampleAccount exampleDomain msg,
       ?w1\<lparr>signings := signings ?w1 @ [(exampleDomain, msg)]\<rparr>)"
    by blast
  then show "\<exists>msg. signProposal exampleEnv exampleAccount exampleProposal emptyWorld =
      (Inr ''0x5157'',
       emptyWorld\<lparr>reads := [(base, ''0x0000000000001d8a2e7bf6bc369525a2654aa298'')],
         signings := [(exampleDomain, msg)]\<rparr>)"
    by (simp add: exampleAccount_def emptyWorld_def)
qed

text \<open>The whole run at a proposal keyed to the remote validator: the proposal ends as
  an \<^verbatim>\<open>"error"\<close> entry and nothing is stored.\<close>

theorem remote_validator_vote:
  \<open>vote (exampleEnv\<lparr>selectProposals :=
       (\<lambda>k. Inr [exampleProposal\<lparr>p_nonce := remoteNonce\<rparr>])\<rparr>) emptyWorld =
     (Status200 1
        [\<lparr>res_hash = ''0xAB12'', status = ''error'', res_signature = None,
          res_vote = None, res_reason = None,
          res_error = Some ''publicClient is not defined''\<rparr>],
      emptyWorld\<lparr>requests := [systemContent [] (p_content exampleProposal)],
        queries := 1,
        reads := [(base, ''0x0000000000001d8a2e7bf6bc369525a2654aa298'')]\<rparr>)\<close>
  by (simp add: vote_eval sign_eval hex_eval example_eval2)

subsection \<open>The other packed fields\<close>

text \<open>
  Property X1. For a user operation whose maxPriorityFeePerGas and maxFeePerGas are both
  at least 0 and below \<open>2 ^ 128\<close>, \<open>packGasLimits\<close> returns a hex string that denotes
  exactly 32 bytes: the first 16 are the big-endian, zero-padded maxPriorityFeePerGas and
  the last 16 the big-endian, zero-padded maxFeePerGas.
\<close>

theorem packGasLimits_layout:
  assumes "0 \<le> maxPriorityFeePerGas uo" "maxPriorityFeePerGas uo < 2 ^ 128"
    and "0 \<le> maxFeePerGas uo" "maxFeePerGas uo < 2 ^ 128"
  shows "\<exists>r bs. packGasLimits uo = Inr r \<and> hexToBytes r = Some bs \<and>
      length bs = 32 \<and>
      take 16 bs = bigEndian 16 (nat (maxPriorityFeePerGas uo)) \<and>
      bigEndianValue (take 16 bs) = nat (maxPriorityFeePerGas uo) \<and>
      drop 16 bs = bigEndian 16 (nat (maxFeePerGas uo)) \<and>
      bigEndianValue (drop 16 bs) = nat (maxFeePerGas uo)"
proof -
  let ?v = "nat (maxPriorityFeePerGas uo)" and ?c = "nat (maxFeePerGas uo)"
  let ?bs = "bigEndian 16 ?v @ bigEndian 16 ?c"
  have a: "bindE (toHex (maxPriorityFeePerGas uo)) (pad 16) =
      Inr (''0x'' @ bytesToDigits (bigEndian 16 ?v))"
    by (rule pad16_fits) (fact assms)+
  have b: "bindE (toHex (maxFeePerGas uo)) (pad 16) =
      Inr (''0x'' @ bytesToDigits (bigEndian 16 ?c))"
    by (rule pad16_fits) (fact assms)+
  have "packGasLimits uo = Inr (''0x'' @ bytesToDigits ?bs)"
    by (simp add: packGasLimits_def a b concatHex_def bytesToDigits_append)
  moreover have "hexToBytes (''0x'' @ bytesToDigits ?bs) = Some ?bs"
    by (rule hexToBytes_digits)
  moreover have "?v < 2 ^ 128" "?c < 2 ^ 128"
    using assms by (simp_all add: nat_less_iff)
  then have "bigEndianValue (bigEndian 16 ?v) = ?v" "bigEndianValue (bigEndian 16 ?c) = ?c"
    by (simp_all add: bigEndianValue_fits)
  ultimately show ?thesis
    by (simp add: bigEndian_length)
qed

theorem packGasLimits_layout_witness:
  "(\<exists>r bs. packGasLimits exampleOp = Inr r \<and> hexToBytes r = Some bs \<and>
      length bs = 32 \<and>
      take 16 bs = bigEndian 16 (nat (maxPriorityFeePerGas exampleOp)) \<and>
      bigEndianValue (take 16 bs) = nat (maxPriorityFeePerGas exampleOp) \<and>
      drop 16 bs = bigEndian 16 (nat (maxFeePerGas exampleOp)) \<and>
      bigEndianValue (drop 16 bs) = nat (maxFeePerGas exampleOp)) \<and>
   packGasLimits exampleOp =
     Inr ''0x0000000000000000000000000000000100000000000000000000000000000064''"
proof
  show "\<exists>r bs. packGasLimits exampleOp = Inr r \<and> hexToBytes r = Some bs \<and>
      length bs = 32 \<and>
      take 16 bs = bigEndian 16 (nat (maxPriorityFeePerGas exampleOp)) \<and>
      bigEndianValue (take 16 bs) = nat (maxPriorityFeePerGas exampleOp) \<and>
      drop 16 bs = bigEndian 16 (nat (maxFeePerGas exampleOp)) \<and>
      bigEndianValue (drop 16 bs) = nat (maxFeePerGas exampleOp)"
    by (rule packGasLimits_layout) (simp_all add: exampleOp_def)
  show "packGasLimits exampleOp =
     Inr ''0x0000000000000000000000000000000100000000000000000000000000000064''"
    by (simp add: hex_eval exampleOp_def)
qed

text \<open>
  Property X2. \<open>packInitCode\<close> returns the empty bytes \<^verbatim>\<open>"0x"\<close> when no factory is set, and
  otherwise the bytes of the factory followed by the bytes of factoryData (none when
  factoryData is missing).
\<close>

theorem packInitCode_layout:
  "(\<not> truthyStr (factory uo) \<longrightarrow> packInitCode uo = ''0x'') \<and>
   (\<forall>f fbs dbs.
      factory uo = Some f \<and> hexToBytes f = Some fbs \<and>
      dataBytes (factoryData uo) = Some dbs \<longrightarrow>
      hexToBytes (packInitCode uo) = Some (fbs @ dbs))"
proof (intro conjI allI impI)
  assume "\<not> truthyStr (factory uo)"
  then show "packInitCode uo = ''0x''"
    by (simp add: packInitCode_def)
next
  fix f fbs dbs
  assume a: "factory uo = Some f \<and> hexToBytes f = Some fbs \<and>
      dataBytes (factoryData uo) = Some dbs"
  then obtain fs where fs: "f = ''0x'' @ fs" "digitsToBytes fs = Some fbs"
    using hexToBytes_SomeD by blast
  from a obtain ds where ds: "orHex (factoryData uo) = ''0x'' @ ds" "digitsToBytes ds = Some dbs"
    using dataBytes_orHex by blast
  have "digitsToBytes (fs @ ds) = Some (fbs @ dbs)"
    by (intro digitsToBytes_append fs(2) ds(2))
  with a fs(1) ds(1) show "hexToBytes (packInitCode uo) = Some (fbs @ dbs)"
    by (simp add: packInitCode_def truthyStr_def concatHex_def hexToBytes_def)
qed

theorem packInitCode_layout_witness:
  "packInitCode exampleOp = ''0x'' \<and>
   hexToBytes (packInitCode (exampleOp\<lparr>factory := Some ''0xfac7'',
     factoryData := Some ''0x0102''\<rparr>)) = Some [0xFA, 0xC7, 0x01, 0x02]"
proof
  have "\<not> truthyStr (factory exampleOp)"
    by (simp add: exampleOp_def truthyStr_def)
  then show "packInitCode exampleOp = ''0x''"
    using packInitCode_layout [of exampleOp] by blast
  let ?u = "exampleOp\<lparr>factory := Some ''0xfac7'', factoryData := Some ''0x0102''\<rparr>"
  have "factory ?u = Some ''0xfac7'' \<and> hexToBytes ''0xfac7'' = Some [0xFA, 0xC7] \<and>
      dataBytes (factoryData ?u) = Some [0x01, 0x02]"
    by (simp add: dataBytes_def hexToBytes_def hexVal_def)
  then have "hexToBytes (packInitCode ?u) = Some ([0xFA, 0xC7] @ [0x01, 0x02])"
    using packInitCode_layout [of ?u] by blast
  then show "hexToBytes (packInitCode ?u) = Some [0xFA, 0xC7, 0x01, 0x02]"
    by simp
qed

end
